theory Spec2Isabelle
  imports Main
begin

section \<open>Python strings\<close>

text \<open>
  The processor works on Python \<open>str\<close> values. A string is modelled as a \<open>char list\<close> whose
  characters are the code points U+0000 to U+00FF; \<open>length\<close> counts code points, as Python's
  \<open>len\<close> does. Code points above U+00FF are outside the model. The source mentions four of
  them: the info glyph U+24D8 and the zero-width joiner U+200D (deleted by \<open>clean_text\<close>),
  the em dash U+2014 (an alternative of a character class in \<open>extract_how_to_obtain\<close>) and the
  star U+2605 (in two of the rarity indicators). A modelled string contains none of them,
  so deleting them changes nothing and a pattern that needs one never matches.

  The character classes below are those of CPython on this range: \<open>str.isspace\<close> and the
  \<open>re\<close> classes \<open>\s\<close>, \<open>\d\<close>, \<open>\w\<close> for \<open>str\<close> patterns, and \<open>str.lower\<close>.
\<close>

definition is_space :: "char \<Rightarrow> bool" where
  "is_space c \<longleftrightarrow> c \<in> set [CHR 0x09, CHR 0x0A, CHR 0x0B, CHR 0x0C, CHR 0x0D,
      CHR 0x1C, CHR 0x1D, CHR 0x1E, CHR 0x1F, CHR 0x20, CHR 0x85, CHR 0xA0]"

definition is_digit :: "char \<Rightarrow> bool" where
  "is_digit c \<longleftrightarrow> c \<in> set ''0123456789''"

definition is_lower_az :: "char \<Rightarrow> bool" where
  "is_lower_az c \<longleftrightarrow> c \<in> set ''abcdefghijklmnopqrstuvwxyz''"

definition is_upper_AZ :: "char \<Rightarrow> bool" where
  "is_upper_AZ c \<longleftrightarrow> c \<in> set ''ABCDEFGHIJKLMNOPQRSTUVWXYZ''"

definition is_alpha_azAZ :: "char \<Rightarrow> bool" where
  "is_alpha_azAZ c \<longleftrightarrow> is_lower_az c \<or> is_upper_AZ c"

definition latin1_upper :: string where
  "latin1_upper = [CHR 0xC0, CHR 0xC1, CHR 0xC2, CHR 0xC3, CHR 0xC4, CHR 0xC5, CHR 0xC6, CHR 0xC7,
     CHR 0xC8, CHR 0xC9, CHR 0xCA, CHR 0xCB, CHR 0xCC, CHR 0xCD, CHR 0xCE, CHR 0xCF,
     CHR 0xD0, CHR 0xD1, CHR 0xD2, CHR 0xD3, CHR 0xD4, CHR 0xD5, CHR 0xD6,
     CHR 0xD8, CHR 0xD9, CHR 0xDA, CHR 0xDB, CHR 0xDC, CHR 0xDD, CHR 0xDE]"

definition latin1_lower :: string where
  "latin1_lower = [CHR 0xE0, CHR 0xE1, CHR 0xE2, CHR 0xE3, CHR 0xE4, CHR 0xE5, CHR 0xE6, CHR 0xE7,
     CHR 0xE8, CHR 0xE9, CHR 0xEA, CHR 0xEB, CHR 0xEC, CHR 0xED, CHR 0xEE, CHR 0xEF,
     CHR 0xF0, CHR 0xF1, CHR 0xF2, CHR 0xF3, CHR 0xF4, CHR 0xF5, CHR 0xF6,
     CHR 0xF8, CHR 0xF9, CHR 0xFA, CHR 0xFB, CHR 0xFC, CHR 0xFD, CHR 0xFE]"

definition is_word :: "char \<Rightarrow> bool" where
  "is_word c \<longleftrightarrow> is_digit c \<or> is_upper_AZ c \<or> is_lower_az c \<or> c = CHR ''_''
     \<or> c \<in> set latin1_upper \<or> c \<in> set latin1_lower
     \<or> c \<in> set [CHR 0xAA, CHR 0xB2, CHR 0xB3, CHR 0xB5, CHR 0xB9, CHR 0xBA, CHR 0xBC, CHR 0xBD,
                  CHR 0xBE, CHR 0xDF, CHR 0xFF]"

definition lower_char :: "char \<Rightarrow> char" where
  "lower_char c =
     (case map_of (zip (''ABCDEFGHIJKLMNOPQRSTUVWXYZ'' @ latin1_upper)
                       (''abcdefghijklmnopqrstuvwxyz'' @ latin1_lower)) c of
        Some l \<Rightarrow> l | None \<Rightarrow> c)"

definition py_lower :: "string \<Rightarrow> string" where
  "py_lower s = map lower_char s"

text \<open>\<open>starts_with s p\<close> is \<open>s.startswith(p)\<close>; \<open>py_in sub s\<close> is the test \<open>sub in s\<close>.\<close>

fun starts_with :: "string \<Rightarrow> string \<Rightarrow> bool" where
  "starts_with s [] = True"
| "starts_with [] (p # ps) = False"
| "starts_with (c # cs) (p # ps) = (c = p \<and> starts_with cs ps)"

fun py_in :: "string \<Rightarrow> string \<Rightarrow> bool" where
  "py_in sub [] = (sub = [])"
| "py_in sub (c # cs) = (starts_with (c # cs) sub \<or> py_in sub cs)"

definition py_strip :: "string \<Rightarrow> string" where
  "py_strip s = rev (dropWhile is_space (rev (dropWhile is_space s)))"

text \<open>\<open>str.split()\<close> without arguments: the maximal runs of non-whitespace characters.\<close>

fun split_acc :: "string \<Rightarrow> string \<Rightarrow> string list" where
  "split_acc cur [] = (if cur = [] then [] else [rev cur])"
| "split_acc cur (c # cs) =
     (if is_space c then (if cur = [] then split_acc [] cs else rev cur # split_acc [] cs)
      else split_acc (c # cur) cs)"

definition py_split :: "string \<Rightarrow> string list" where
  "py_split s = split_acc [] s"

fun py_join :: "string \<Rightarrow> string list \<Rightarrow> string" where
  "py_join sep [] = []"
| "py_join sep [x] = x"
| "py_join sep (x # y # ys) = x @ sep @ py_join sep (y # ys)"

section \<open>Regular expressions\<close>

text \<open>
  The patterns of the source are written as terms of \<open>re\<close> and run by a backtracking
  matcher with the priorities of Python's \<open>re\<close> module. A match state holds the groups
  captured so far (newest first), the text before the current position (reversed) and the
  text after it. \<open>ms ic r st\<close> lists the states in which a match of \<open>r\<close> started at \<open>st\<close>
  can end, in the order in which Python tries them: the head of the list is the match
  Python reports. \<open>ic\<close> is the flag \<open>re.IGNORECASE\<close>; on the modelled code points two
  characters match under it exactly when their lower-case forms are equal. All character
  classes that the source uses under \<open>re.IGNORECASE\<close> are closed under case, so classes
  ignore the flag.

  \<open>Star\<close> is the greedy \<open>*\<close> and \<open>Lazy\<close> the non-greedy \<open>*?\<close>; an iteration that consumes
  nothing is dropped (every starred sub-pattern of the source consumes a character).
  \<open>Behind P\<close> is a one-character lookbehind \<open>(?<=[...])\<close>, \<open>Bnd\<close> is \<open>\b\<close>, \<open>Bol\<close> is \<open>^\<close>.
\<close>

datatype re =
    Eps
  | Lit char
  | Cls "char \<Rightarrow> bool"
  | Seq re re
  | Alt re re
  | Star re
  | Lazy re
  | Grp nat re
  | Behind "char \<Rightarrow> bool"
  | Bnd
  | Bol

type_synonym mstate = "(nat \<times> string) list \<times> string \<times> string"

fun ms :: "bool \<Rightarrow> re \<Rightarrow> mstate \<Rightarrow> mstate list" where
  "ms ic Eps st = [st]"
| "ms ic (Lit c) (g, b, a) =
     (case a of [] \<Rightarrow> []
      | x # xs \<Rightarrow> if (if ic then lower_char x = lower_char c else x = c) then [(g, x # b, xs)] else [])"
| "ms ic (Cls P) (g, b, a) =
     (case a of [] \<Rightarrow> [] | x # xs \<Rightarrow> if P x then [(g, x # b, xs)] else [])"
| "ms ic (Seq r1 r2) st = concat (map (ms ic r2) (ms ic r1 st))"
| "ms ic (Alt r1 r2) st = ms ic r1 st @ ms ic r2 st"
| "ms ic (Star r) (g, b, a) =
     concat (map (\<lambda>(g', b', a'). if length a' < length a then ms ic (Star r) (g', b', a') else [])
                 (ms ic r (g, b, a))) @ [(g, b, a)]"
| "ms ic (Lazy r) (g, b, a) =
     (g, b, a) #
     concat (map (\<lambda>(g', b', a'). if length a' < length a then ms ic (Lazy r) (g', b', a') else [])
                 (ms ic r (g, b, a)))"
| "ms ic (Grp n r) (g, b, a) =
     map (\<lambda>(g', b', a'). ((n, rev (take (length b' - length b) b')) # g', b', a'))
         (ms ic r (g, b, a))"
| "ms ic (Behind P) (g, b, a) =
     (case b of [] \<Rightarrow> [] | x # _ \<Rightarrow> if P x then [(g, b, a)] else [])"
| "ms ic Bnd (g, b, a) =
     (if (case b of [] \<Rightarrow> False | x # _ \<Rightarrow> is_word x) \<noteq> (case a of [] \<Rightarrow> False | x # _ \<Rightarrow> is_word x)
      then [(g, b, a)] else [])"
| "ms ic Bol (g, b, a) = (if b = [] then [(g, b, a)] else [])"

text \<open>Derived pattern forms: a literal string, \<open>+\<close>, \<open>+?\<close>, \<open>?\<close>, an alternation of
  literal strings, and the classes \<open>[...]\<close> and \<open>[^...]\<close> given by their characters.\<close>

definition Str :: "string \<Rightarrow> re" where
  "Str s = foldr (\<lambda>c r. Seq (Lit c) r) s Eps"

definition Plus :: "re \<Rightarrow> re" where
  "Plus r = Seq r (Star r)"

definition LazyPlus :: "re \<Rightarrow> re" where
  "LazyPlus r = Seq r (Lazy r)"

definition Opt :: "re \<Rightarrow> re" where
  "Opt r = Alt r Eps"

definition Alts :: "string list \<Rightarrow> re" where
  "Alts ws = foldr (\<lambda>w r. Alt (Str w) r) (butlast ws) (Str (last ws))"

definition Seqs :: "re list \<Rightarrow> re" where
  "Seqs rs = foldr Seq rs Eps"

definition OneOf :: "string \<Rightarrow> re" where
  "OneOf cs = Cls (\<lambda>c. c \<in> set cs)"

definition NoneOf :: "string \<Rightarrow> re" where
  "NoneOf cs = Cls (\<lambda>c. c \<notin> set cs)"

text \<open>\<open>re.search\<close>: the first match at the leftmost position that has one. The result is
  the final match state: its groups, and the text after the end of the match.\<close>

fun search_from :: "bool \<Rightarrow> re \<Rightarrow> string \<Rightarrow> string \<Rightarrow> mstate option" where
  "search_from ic r b a =
     (case ms ic r ([], b, a) of
        m # _ \<Rightarrow> Some m
      | [] \<Rightarrow> (case a of [] \<Rightarrow> None | x # xs \<Rightarrow> search_from ic r (x # b) xs))"

definition re_search :: "bool \<Rightarrow> re \<Rightarrow> string \<Rightarrow> mstate option" where
  "re_search ic r s = search_from ic r [] s"

text \<open>\<open>match.group(n)\<close>. Every pattern of the source from which a group is read binds that
  group in each of its matches.\<close>

definition group :: "mstate \<Rightarrow> nat \<Rightarrow> string" where
  "group m n = (case map_of (fst m) n of Some s \<Rightarrow> s | None \<Rightarrow> [])"

definition match_end_text :: "mstate \<Rightarrow> string" where
  "match_end_text m = snd (snd m)"

text \<open>\<open>re.sub\<close> with a replacement template: \<open>T s\<close> is literal text, \<open>G n\<close> is \<open>\n\<close>.
  Matches are found from left to right on the original text and do not overlap; after an
  empty match the next character is copied.\<close>

datatype rpart = T string | G nat

definition expand :: "rpart list \<Rightarrow> (nat \<times> string) list \<Rightarrow> string" where
  "expand rep g =
     concat (map (\<lambda>p. case p of T s \<Rightarrow> s
                      | G n \<Rightarrow> (case map_of g n of Some s \<Rightarrow> s | None \<Rightarrow> [])) rep)"

fun sub_from :: "bool \<Rightarrow> re \<Rightarrow> rpart list \<Rightarrow> string \<Rightarrow> string \<Rightarrow> string" where
  "sub_from ic r rep b a =
     (case ms ic r ([], b, a) of
        (g, b', a') # _ \<Rightarrow>
          if length a' < length a then expand rep g @ sub_from ic r rep b' a'
          else expand rep g @ (case a of [] \<Rightarrow> [] | x # xs \<Rightarrow> x # sub_from ic r rep (x # b) xs)
      | [] \<Rightarrow> (case a of [] \<Rightarrow> [] | x # xs \<Rightarrow> x # sub_from ic r rep (x # b) xs))"

definition re_sub :: "bool \<Rightarrow> re \<Rightarrow> rpart list \<Rightarrow> string \<Rightarrow> string" where
  "re_sub ic r rep s = sub_from ic r rep [] s"

text \<open>The classes \<open>\s\<close>, \<open>\d\<close>, \<open>[A-Z]\<close>, \<open>[a-z]\<close>, and the dot: any character but a newline.\<close>

abbreviation sp :: re where "sp \<equiv> Cls is_space"
abbreviation digit :: re where "digit \<equiv> Cls is_digit"
abbreviation upper :: re where "upper \<equiv> Cls is_upper_AZ"
abbreviation lower :: re where "lower \<equiv> Cls is_lower_az"

definition dot :: re where
  "dot = Cls (\<lambda>c. c \<noteq> CHR 0x0A)"

text \<open>\<open>re.split\<close> for a pattern without groups that never matches the empty string (the
  only pattern split on is the sentence separator below).\<close>

fun split_from :: "bool \<Rightarrow> re \<Rightarrow> string \<Rightarrow> string \<Rightarrow> string \<Rightarrow> string list" where
  "split_from ic r b a cur =
     (case ms ic r ([], b, a) of
        (g, b', a') # _ \<Rightarrow>
          if length a' < length a then rev cur # split_from ic r b' a' []
          else (case a of [] \<Rightarrow> [rev cur] | x # xs \<Rightarrow> split_from ic r (x # b) xs (x # cur))
      | [] \<Rightarrow> (case a of [] \<Rightarrow> [rev cur] | x # xs \<Rightarrow> split_from ic r (x # b) xs (x # cur)))"

definition re_split :: "bool \<Rightarrow> re \<Rightarrow> string \<Rightarrow> string list" where
  "re_split ic r s = split_from ic r [] s []"

text \<open>\<open>re.match\<close>: a match that starts at the beginning of the text.\<close>

definition re_match :: "bool \<Rightarrow> re \<Rightarrow> string \<Rightarrow> mstate option" where
  "re_match ic r s = (case ms ic r ([], [], s) of m # _ \<Rightarrow> Some m | [] \<Rightarrow> None)"

text \<open>The loop shared by the regex extractors: the patterns are searched in order; a match
  whose capture passes the extractor's check is returned, otherwise the next pattern is
  tried.\<close>

fun first_valid :: "bool \<Rightarrow> re list \<Rightarrow> (mstate \<Rightarrow> 'a option) \<Rightarrow> string \<Rightarrow> 'a option" where
  "first_valid ic [] check s = None"
| "first_valid ic (pattern # patterns) check s =
     (case re_search ic pattern s of
        Some m \<Rightarrow> (case check m of Some v \<Rightarrow> Some v | None \<Rightarrow> first_valid ic patterns check s)
      | None \<Rightarrow> first_valid ic patterns check s)"

section \<open>The text normalizer\<close>

text \<open>The pattern \<open>\[\d+\]\<close> of a numbered reference marker, used by several extractors.\<close>

definition ref_marker :: re where
  "ref_marker = Seqs [Lit CHR ''['', Plus (Cls is_digit), Lit CHR '']'']"

definition stuck_patterns :: "(re \<times> rpart list) list" where
  "stuck_patterns =
    [(Seq (Grp 1 (Cls is_word))
          (Grp 2 (Alts [''Card'', ''Wish'', ''Quality'', ''Weapon'', ''Element'', ''Model''])),
        [G 1, T '' '', G 2]),
     (Seq (Grp 1 (Alts [''Type'', ''Bonus'', ''Roles'', ''Bio'', ''Birthday'', ''Region'', ''Dish'']))
          (Grp 2 (Cls is_word)),
        [G 1, T '' '', G 2]),
     (Seq (Grp 1 (Alts [''English'', ''Chinese'', ''Japanese'', ''Korean'']))
          (Grp 2 (Cls is_upper_AZ)),
        [G 1, T '' '', G 2]),
     (Seq (Grp 1 (Seqs [Str ''Playable'', Star (Cls is_space), Str ''Characters'']))
          (Grp 2 (Cls is_word)),
        [G 1, T ''. '', G 2]),
     (Seq (Grp 1 (Str ''Genshin'')) (Grp 2 (Str ''Impact'')),
        [G 1, T '' '', G 2]),
     (Seqs [Grp 1 (Cls is_word), Grp 2 (Str ''character''), Grp 3 (Str ''in'')],
        [G 1, T '' '', G 2, T '' '', G 3]),
     (Seq (Grp 1 (Str ''in'')) (Grp 2 (Str ''Genshin'')),
        [G 1, T '' '', G 2])]"

definition clean_text :: "string \<Rightarrow> string" where
  "clean_text text =
    (if text = [] then []
     else
       let text = re_sub False ref_marker [] text;
           text = re_sub False (Str ''[edit]'') [] text;
           text = re_sub False
                    (Seqs [Str ''[Note'', Star (Cls is_space), Plus (Cls is_digit), Lit CHR '']'']) [] text;
           text = filter (\<lambda>c. c \<noteq> CHR 0xAD) text;
           text = re_sub False (Seq (Grp 1 (Cls is_lower_az)) (Grp 2 (Cls is_upper_AZ)))
                    [G 1, T '' '', G 2] text;
           text = foldl (\<lambda>text (pattern, replacement). re_sub False pattern replacement text)
                    text stuck_patterns;
           text = re_sub False (Plus (Cls is_space)) [T '' ''] text;
           text = re_sub False (Seq (Plus (Cls is_space)) (Grp 1 (OneOf ''.,!?''))) [G 1] text
       in py_strip text)"

section \<open>Field extractors\<close>

definition FIVE_STAR_CHARS :: "string set" where
  "FIVE_STAR_CHARS = set
    [''Albedo'', ''Alhaitham'', ''Tartaglia'', ''Lyney'', ''Baizhu'', ''Chasca'', ''Chiori'',
     ''Citlali'', ''Clorinde'', ''Cyno'', ''Dehya'', ''Diluc'', ''Eula'', ''Furina'',
     ''Ganyu'', ''Hu Tao'', ''Itto'', ''Jean'', ''Kazuha'', ''Keqing'', ''Kinich'',
     ''Klee'', ''Mavuika'', ''Mona'', ''Mualani'', ''Nahida'', ''Navia'', ''Neuvillette'',
     ''Nilou'', ''Qiqi'', ''Raiden Shogun'', ''Shenhe'', ''Sigewinne'', ''Tighnari'',
     ''Venti'', ''Wanderer'', ''Wriothesley'', ''Xiao'', ''Xianyun'', ''Xilonen'',
     ''Yae Miko'', ''Yelan'', ''Yoimiya'', ''Zhongli'', ''Arlecchino'', ''Emilie'',
     ''Kamisato Ayaka'', ''Kamisato Ayato'', ''Kaedehara Kazuha'', ''Arataki Itto'',
     ''Sangonomiya Kokomi'', ''Yae Miko'', ''Raiden Shogun'', ''Columbina'',
     ''Zibai'', ''Ineffa'', ''Nefer'', ''Lauma'', ''Flins'', ''Aloy'', ''Traveler'',
     ''Yumemizuki Mizuki'', ''Durin'', ''Escoffier'', ''Skirk'', ''Varesa'']"

text \<open>The five-star indicators of \<open>extract_rarity\<close>. The source lists five; the two that
  contain the star U+2605 cannot occur in a modelled introduction and are left out.\<close>

definition five_star_indicators :: "string list" where
  "five_star_indicators = [''5-Star'', ''5 Star'', ''Quality5'']"

definition extract_rarity :: "string \<Rightarrow> string \<Rightarrow> int" where
  "extract_rarity name intro =
     (let name_parts = py_split name in
      if \<exists>part \<in> set name_parts. part \<in> FIVE_STAR_CHARS then 5
      else if name \<in> FIVE_STAR_CHARS then 5
      else if \<exists>indicator \<in> set five_star_indicators. py_in (py_lower indicator) (py_lower intro) then 5
      else 4)"

fun extract_field :: "string \<Rightarrow> string list \<Rightarrow> string option" where
  "extract_field text [] = None"
| "extract_field text (option # options) =
     (if py_in (py_lower option) (py_lower text) then Some option else extract_field text options)"

definition element_options :: "string list" where
  "element_options = [''Pyro'', ''Hydro'', ''Electro'', ''Cryo'', ''Anemo'', ''Geo'', ''Dendro'']"

definition weapon_options :: "string list" where
  "weapon_options = [''Sword'', ''Claymore'', ''Polearm'', ''Bow'', ''Catalyst'']"

definition region_options :: "string list" where
  "region_options = [''Mondstadt'', ''Liyue'', ''Inazuma'', ''Sumeru'', ''Fontaine'',
                     ''Natlan'', ''Snezhnaya'', ''Khaenri'ah'', ''Nod-Krai'']"

text \<open>In the event-wish pattern the class \<open>[\<emdash>-]\<close> of the source is the hyphen alone here:
  the em dash is outside the modelled code points.\<close>

definition event_wish_name_re :: re where
  "event_wish_name_re =
     Seqs [Str ''Event Wish'', Star (Cls is_space), OneOf ''-'', Star (Cls is_space),
           Grp 1 (LazyPlus (NoneOf ''F'')), Alt (Str '' Featured'') (Str ''Release'')]"

definition extract_how_to_obtain :: "string \<Rightarrow> string list" where
  "extract_how_to_obtain intro =
    (let methods = [];
         methods = methods @ (if py_in ''wishes'' (py_lower intro) \<or> py_in ''wish'' (py_lower intro)
                              then [''Wishes''] else []);
         methods = methods @ (if py_in ''event wish'' (py_lower intro)
                              then (case re_search False event_wish_name_re intro of
                                      Some m \<Rightarrow> [''Event Wish: '' @ py_strip (group m 1)]
                                    | None \<Rightarrow> [])
                              else []);
         methods = methods @ (if py_in ''chronicled wishes'' (py_lower intro)
                              then [''Chronicled Wishes''] else []);
         methods = methods @ (if py_in ''paimon's bargains'' (py_lower intro)
                              then [''Paimon's Bargains''] else []);
         methods = methods @ (if py_in ''adventure rank'' (py_lower intro)
                              then [''Adventure Rank Reward''] else []);
         methods = methods @ (if py_in ''archon quest'' (py_lower intro) \<or> py_in ''complete'' (py_lower intro)
                              then [''Quest Reward''] else [])
     in if methods \<noteq> [] then methods else [''Wishes''])"

record roles =
  on_field :: bool
  off_field :: bool
  dps :: bool
  support :: bool
  survivability :: bool

definition extract_character_roles :: "string \<Rightarrow> roles" where
  "extract_character_roles intro =
    (let intro_lower = py_lower intro in
     \<lparr> on_field = py_in ''on-field'' intro_lower \<or> py_in ''on field'' intro_lower,
       off_field = py_in ''off-field'' intro_lower \<or> py_in ''off field'' intro_lower,
       dps = py_in ''dps'' intro_lower,
       support = py_in ''support'' intro_lower,
       survivability = py_in ''survivability'' intro_lower \<or> py_in ''healing'' intro_lower
                        \<or> py_in ''healer'' intro_lower \<rparr>)"

definition create_role_summary :: "roles \<Rightarrow> string" where
  "create_role_summary r =
    (let role_parts = [];
         role_parts = role_parts @ (if on_field r then [''On-Field''] else []);
         role_parts = role_parts @ (if off_field r then [''Off-Field''] else []);
         role_parts = role_parts @ (if dps r then [''DPS''] else []);
         role_parts = role_parts @ (if support r then [''Support''] else []);
         role_parts = role_parts @ (if survivability r then [''Healer/Shielder''] else [])
     in if role_parts \<noteq> [] then py_join '' / '' role_parts else ''Unknown'')"

text \<open>\<open>[A-Z][a-z]+\s+\d{1,2},?\s*\d{4}\<close>\<close>

definition month_day_year :: re where
  "month_day_year = Seqs [upper, Plus lower, Plus sp, digit, Opt digit, Opt (Lit CHR '',''),
                          Star sp, digit, digit, digit, digit]"

definition release_date_patterns :: "re list" where
  "release_date_patterns =
    [Seqs [Str ''Release'', Star sp, Str ''Date'', Star sp, Grp 1 month_day_year],
     Seqs [Str ''Release'', Opt (Lit CHR ''d''), Star sp, Opt (Seq (Str ''on'') (Star sp)),
           Grp 1 month_day_year]]"

definition extract_release_date :: "string \<Rightarrow> string option" where
  "extract_release_date intro =
     first_valid False release_date_patterns (\<lambda>m. Some (py_strip (group m 1))) intro"

datatype lang = English | Chinese | Japanese | Korean

text \<open>\<open>[A-Z][a-z]+(?:\s+[A-Z][a-z]+)*\<close>\<close>

definition capitalised_words :: re where
  "capitalised_words = Seqs [upper, Plus lower, Star (Seqs [Plus sp, upper, Plus lower])]"

text \<open>\<open>LANG\s*([^\[\]]+?)(?:\s*\([^)]+\))?\s*(?:\[|NEXT)\<close>\<close>

definition actor_until :: "string \<Rightarrow> string \<Rightarrow> re" where
  "actor_until lang_name next_name =
     Seqs [Str lang_name, Star sp, Grp 1 (LazyPlus (NoneOf ''[]'')),
           Opt (Seqs [Star sp, Lit CHR ''('', Plus (NoneOf '')''), Lit CHR '')'']),
           Star sp, Alt (Lit CHR ''['') (Str next_name)]"

definition voice_actor_patterns :: "(lang \<times> re) list" where
  "voice_actor_patterns =
    [(English, Seqs [Str ''English'', Star sp, Grp 1 capitalised_words]),
     (Chinese, actor_until ''Chinese'' ''Japanese''),
     (Japanese, actor_until ''Japanese'' ''Korean''),
     (Korean, actor_until ''Korean'' ''Additional'')]"

text \<open>\<open>\s*\([^)]*\)\s*\<close>\<close>

definition paren_aside :: re where
  "paren_aside = Seqs [Star sp, Lit CHR ''('', Star (NoneOf '')''), Lit CHR '')'', Star sp]"

fun voice_actors_loop :: "(lang \<times> re) list \<Rightarrow> string \<Rightarrow> (lang \<times> string) list" where
  "voice_actors_loop [] intro = []"
| "voice_actors_loop ((lang, pattern) # patterns) intro =
     (case re_search False pattern intro of
        Some m \<Rightarrow>
          (let actor = py_strip (group m 1);
               actor = re_sub False paren_aside [] actor;
               actor = re_sub False ref_marker [] actor
           in if actor \<noteq> [] \<and> length actor > 1 \<and> length actor < 50
              then (lang, actor) # voice_actors_loop patterns intro
              else voice_actors_loop patterns intro)
      | None \<Rightarrow> voice_actors_loop patterns intro)"

definition extract_voice_actors :: "string \<Rightarrow> (lang \<times> string) list" where
  "extract_voice_actors intro = voice_actors_loop voice_actor_patterns intro"

definition extract_character_type :: "string \<Rightarrow> string" where
  "extract_character_type intro =
    (let intro_lower = py_lower intro in
     if py_in ''synthetic'' intro_lower then
       (if py_in ''creator'' intro_lower \<or> py_in ''created by'' intro_lower then ''Synthetic (Created)''
        else if py_in ''derived from'' intro_lower then ''Synthetic (Derived)''
        else ''Synthetic'')
     else if py_in ''adoptive'' intro_lower then ''Adoptive''
     else ''Biological'')"

datatype error = KeyError | AttributeError | ValueError

text \<open>\<open>int(s)\<close> for a string of decimal digits, as captured by \<open>(\d+)\<close>. CPython refuses to
  convert more than 4300 digits (the default of \<open>sys.set_int_max_str_digits\<close>) and raises
  \<open>ValueError\<close>.\<close>

definition digit_val :: "char \<Rightarrow> nat" where
  "digit_val c = (case map_of (zip ''0123456789'' [0, 1, 2, 3, 4, 5, 6, 7, 8, 9]) c of
                    Some d \<Rightarrow> d | None \<Rightarrow> 0)"

definition py_int :: "string \<Rightarrow> error + int" where
  "py_int s = (if s = [] \<or> \<not> list_all is_digit s \<or> length s > 4300 then Inl ValueError
               else Inr (int (foldl (\<lambda>n c. 10 * n + digit_val c) 0 s)))"

definition event_wishes_patterns :: "re list" where
  "event_wishes_patterns =
    [Seqs [Str ''promoted or featured with a drop-rate boost in'', Star sp, Grp 1 (Plus digit),
           Star sp, Str ''Event Wish''],
     Seqs [Str ''featured'', Lazy dot, Grp 1 (Plus digit), Star sp, Str ''Event Wish'']]"

definition extract_event_wishes :: "string \<Rightarrow> error + int option" where
  "extract_event_wishes intro =
     (case first_valid True event_wishes_patterns Some intro of
        Some m \<Rightarrow> (case py_int (group m 1) of Inl e \<Rightarrow> Inl e | Inr n \<Rightarrow> Inr (Some n))
      | None \<Rightarrow> Inr None)"

definition special_dish_patterns :: "re list" where
  "special_dish_patterns =
    [Seqs [Str ''Special'', Star sp, Str ''Dish'', Star sp,
           Grp 1 (Seq upper (LazyPlus (NoneOf ''N''))), Alt (Str '' Namecard'') (Str ''How'')],
     Seqs [Str ''Special'', Star sp, Str ''Dish'', Grp 1 (LazyPlus (NoneOf ''N'')), Str ''Namecard'']]"

definition extract_special_dish :: "string \<Rightarrow> string option" where
  "extract_special_dish intro =
     first_valid False special_dish_patterns
       (\<lambda>m. let dish = py_strip (group m 1);
                 dish = re_sub False ref_marker [] dish;
                 dish = py_strip dish
             in if dish \<noteq> [] \<and> length dish > 2 \<and> length dish < 100 then Some dish else None)
       intro"

definition namecard_patterns :: "re list" where
  "namecard_patterns =
    [Seqs [Str ''Namecard'', Star sp, Grp 1 (Seq upper (LazyPlus (NoneOf ''H''))),
           Alts [''How'', ''Featured'', ''Release'']],
     Seqs [Str ''Namecard'', Grp 1 (LazyPlus (NoneOf ''H'')), Str ''How'']]"

definition extract_namecard :: "string \<Rightarrow> string option" where
  "extract_namecard intro =
     first_valid False namecard_patterns
       (\<lambda>m. let namecard = py_strip (group m 1);
                 namecard = re_sub False ref_marker [] namecard
             in if namecard \<noteq> [] \<and> length namecard > 2 then Some namecard else None)
       intro"

definition real_name_patterns :: "re list" where
  "real_name_patterns =
    [Seqs [Str ''Real'', Star sp, Str ''Name'', Star sp, Grp 1 capitalised_words]]"

definition extract_real_name :: "string \<Rightarrow> string option" where
  "extract_real_name intro =
     first_valid False real_name_patterns
       (\<lambda>m. let name = py_strip (group m 1)
             in if name \<noteq> [] \<and> length name > 2 then Some name else None)
       intro"

text \<open>\<open>"?([^",.\[\]]+)"?\<close>; the double quote is \<open>CHR 0x22\<close>.\<close>

definition quoted_alias :: re where
  "quoted_alias = Seqs [Opt (Lit CHR 0x22), Grp 1 (Plus (NoneOf (CHR 0x22 # '',.[]''))),
                        Opt (Lit CHR 0x22)]"

definition title_patterns :: "re list" where
  "title_patterns =
    [Seqs [Lit CHR 0x22, Grp 1 (Plus (NoneOf [CHR 0x22])), Lit CHR 0x22],
     Seqs [Str ''also known as'', Plus sp, quoted_alias],
     Seqs [Str ''known as'', Plus sp, quoted_alias],
     Seqs [Str ''titled'', Plus sp, quoted_alias]]"

definition extract_title :: "string \<Rightarrow> string option" where
  "extract_title intro =
     first_valid True title_patterns
       (\<lambda>m. let title = py_strip (group m 1)
             in if length title > 3 \<and> length title < 50 then Some title else None)
       intro"

definition affiliation_keywords :: "string list" where
  "affiliation_keywords =
    [''Knights of Favonius'', ''Liyue Qixing'', ''Fatui'', ''Adventurers' Guild'',
     ''Wangsheng Funeral Parlor'', ''Yashiro Commission'', ''Tenryou Commission'',
     ''Kamisato Clan'', ''Arataki Gang'', ''Watatsumi Army'', ''Sumeru Akademiya'',
     ''Spina di Rosula'', ''Hotel Bouffes d'ete'', ''House of the Hearth'',
     ''Maison Gardiennage'', ''The Crux'', ''Church of Favonius'',
     ''Grand Narukami Shrine'', ''Sangonomiya Shrine'', ''Shuumatsuban'',
     ''Hexenzirkel'', ''Eleven Fatui Harbingers'', ''The Seven'',
     ''Bubu Pharmacy'', ''Adepti'', ''Forest Rangers'', ''Matra'',
     ''Temple of Silence'', ''The Steambird'', ''Zubayr Theater'',
     ''Lightkeepers'', ''Three Moons'', ''Frostmoon Scions'']"

definition extract_affiliation :: "string \<Rightarrow> string list" where
  "extract_affiliation intro =
     filter (\<lambda>affiliation. py_in (py_lower affiliation) (py_lower intro)) affiliation_keywords"

text \<open>\<open>[A-Z][a-z]+\s*[A-Z]?[a-z]*\<close>\<close>

definition constellation_name :: re where
  "constellation_name = Seqs [upper, Plus lower, Star sp, Opt upper, Star lower]"

definition constellation_patterns :: "re list" where
  "constellation_patterns =
    [Seqs [Str ''Constellation'', Star sp, Grp 1 constellation_name],
     Seqs [Str ''lation'', Star sp, Grp 1 constellation_name]]"

definition extract_constellation :: "string \<Rightarrow> string option" where
  "extract_constellation intro =
     first_valid False constellation_patterns
       (\<lambda>m. let constellation = py_strip (group m 1)
             in if constellation \<noteq> [] \<and> length constellation > 3
                   \<and> \<not> starts_with constellation ''Story''
                then Some constellation else None)
       intro"

definition birthday_re :: re where
  "birthday_re = Seqs [Str ''Birthday'', Star sp, Grp 1 (Seqs [upper, Plus lower, Plus sp, Plus digit])]"

definition model_types :: "string list" where
  "model_types = [''Tall Male'', ''Tall Female'', ''Medium Male'', ''Medium Female'',
                  ''Short Male'', ''Short Female'']"

definition remove_spaces :: "string \<Rightarrow> string" where
  "remove_spaces s = filter (\<lambda>c. c \<noteq> CHR '' '') s"

fun extract_model_type_loop :: "string \<Rightarrow> string list \<Rightarrow> string option" where
  "extract_model_type_loop text [] = None"
| "extract_model_type_loop text (model # models) =
     (if py_in (remove_spaces (py_lower model)) (remove_spaces (py_lower text)) then Some model
      else extract_model_type_loop text models)"

definition extract_model_type :: "string \<Rightarrow> string option" where
  "extract_model_type text = extract_model_type_loop text model_types"

definition clean_section_name :: "string \<Rightarrow> string" where
  "clean_section_name name =
    (let name = re_sub False (Str ''[]'') [] name;
         name = re_sub False (Seqs [Lit CHR ''['', Lazy dot, Lit CHR '']'']) [] name
     in py_strip name)"

section \<open>The description synthesizer\<close>

definition is_system_character :: "string \<Rightarrow> string \<Rightarrow> string \<Rightarrow> bool" where
  "is_system_character name url intro =
    (let text = py_lower (name @ '' '' @ url @ '' '' @ intro) in
     py_in ''wonderland'' text \<or> py_in ''gameplay mode'' text \<or> py_in ''system character'' text)"

definition system_character_description :: string where
  "system_character_description =
     ''The Wonderland Manekin is a playable system character representing '' @
     ''the Miliastra Wonderland gameplay mode in Genshin Impact.''"

text \<open>\<open>re.split(r'(?<=[.!?])\s+', text)\<close>\<close>

definition sentence_split :: "string \<Rightarrow> string list" where
  "sentence_split text = re_split False (Seq (Behind (\<lambda>c. c \<in> set ''.!?'')) (Plus sp)) text"

definition IDENTITY_KEYWORDS :: "string list" where
  "IDENTITY_KEYWORDS = [''archon'', ''god'', ''deity'', ''immortal'',
     ''former'', ''current'', ''leader'', ''founder'',
     ''captain'', ''consultant'', ''knight'',
     ''descendant'', ''wander'', ''guardian'']"

definition NOISE :: "string list" where
  "NOISE = [''voice actor'', ''english'', ''chinese'', ''japanese'',
     ''birthday'', ''constellation'', ''release date'',
     ''featured'', ''event wish'', ''how to obtain'']"

definition score_sentence :: "string \<Rightarrow> string \<Rightarrow> int" where
  "score_sentence sentence name =
    (let s = py_lower sentence;
         score = 0;
         score = score + (if re_match False (Seqs [Bol, Grp 1 (Alts [''a'', ''an'', ''the'']), Plus sp]) s
                             \<noteq> None then 3 else 0);
         score = score + (if re_search False
                               (Seqs [Bnd, Grp 1 (Alts [''he'', ''she'']), Plus sp, Str ''is'', Bnd]) s
                             \<noteq> None then 3 else 0);
         score = score + (if py_in (py_lower name) s then 4 else 0);
         score = foldl (\<lambda>score kw. if py_in kw s then score + 2 else score) score IDENTITY_KEYWORDS;
         score = foldl (\<lambda>score n. if py_in n s then score - 4 else score) score NOISE
     in score)"

definition aggressive_spacing_fix :: "string \<Rightarrow> string" where
  "aggressive_spacing_fix text =
    (if text = [] then text
     else
       let text = re_sub False (Seq (Grp 1 lower) (Grp 2 upper)) [G 1, T '' '', G 2] text;
           text = re_sub False (Seq (Grp 1 (Str ''is'')) (Grp 2 upper)) [G 1, T '' '', G 2] text;
           text = re_sub True (Seq (Grp 1 (Cls is_alpha_azAZ)) (Grp 2 (Str ''character'')))
                    [G 1, T '' character''] text;
           text = re_sub False (Seq (Grp 1 (Cls is_alpha_azAZ)) (Grp 2 (Str ''Archon'')))
                    [G 1, T '' Archon''] text;
           text = re_sub False (Seq (Grp 1 (Cls is_alpha_azAZ)) (Grp 2 (Str ''Harbinger'')))
                    [G 1, T '' Harbinger''] text;
           text = re_sub False (Plus sp) [T '' ''] text
       in py_strip text)"

text \<open>The markers are built from the name with \<open>re.escape\<close>, so the name is matched as
  literal text (case-insensitively).\<close>

definition MARKERS :: "string \<Rightarrow> re list" where
  "MARKERS name =
    [Seqs [Str ''Playable Characters'', Star sp, Str name],
     Seqs [Str ''Playable Characters'', Lazy dot, Str name],
     Seqs [Str name, Plus sp, Str ''is'', Plus sp, Str ''a'', Plus sp, Str ''playable'']]"

definition extract_marker_lore :: "string \<Rightarrow> string \<Rightarrow> string list" where
  "extract_marker_lore text name =
     concat (map (\<lambda>marker.
        case re_search True marker text of
          Some m \<Rightarrow>
            (let tail = take 800 (match_end_text m);
                 sentences = sentence_split tail
             in filter (\<lambda>s. 40 \<le> length s \<and> length s \<le> 400) (map py_strip (take 3 sentences)))
        | None \<Rightarrow> []) (MARKERS name))"

definition role_reveal_patterns :: "re list" where
  "role_reveal_patterns =
    [Str ''is later revealed to be'',
     Seqs [Str ''is the '', Lazy dot, Str '' archon''],
     Seqs [Str ''is the '', Lazy dot, Str '' harbinger''],
     Str ''a consultant of'',
     Seqs [Str ''former '', Lazy dot, Str '' of''],
     Str ''leader of'',
     Str ''founder of'',
     Str ''from another world'',
     Str ''crossover character'']"

definition extract_role_reveal_lore :: "string list \<Rightarrow> string list" where
  "extract_role_reveal_lore sentences =
     map py_strip
       (filter (\<lambda>s. (\<exists>p \<in> set role_reveal_patterns. re_search False p (py_lower s) \<noteq> None)
                     \<and> 40 \<le> length s \<and> length s \<le> 300) sentences)"

fun official_intro_loop :: "(string \<times> string) list \<Rightarrow> string option" where
  "official_intro_loop [] = None"
| "official_intro_loop ((key, val) # rest) =
     (if py_lower key = ''official introduction'' \<and> val \<noteq> [] \<and> length val > 200
      then Some (py_strip val) else official_intro_loop rest)"

definition extract_official_intro :: "(string \<times> string) list \<Rightarrow> string option" where
  "extract_official_intro sections = (if sections = [] then None else official_intro_loop sections)"

text \<open>\<open>for s in xs: if s not in description_parts: description_parts.append(s)\<close>\<close>

definition add_new :: "string list \<Rightarrow> string list \<Rightarrow> string list" where
  "add_new description_parts xs =
     foldl (\<lambda>parts s. if s \<in> set parts then parts else parts @ [s]) description_parts xs"

definition extract_clean_description ::
  "string \<Rightarrow> string \<Rightarrow> string \<Rightarrow> (string \<times> string) list \<Rightarrow> string \<Rightarrow> string" where
  "extract_clean_description name intro full_text sections url =
    (if is_system_character name url intro then system_character_description
     else
       let description_parts = [];
           official_intro = extract_official_intro sections;
           description_parts = description_parts @ (case official_intro of
                                                      Some oi \<Rightarrow> if oi \<noteq> [] then [oi] else []
                                                    | None \<Rightarrow> []);
           fixed_intro = aggressive_spacing_fix intro;
           sentences = sentence_split fixed_intro;
           marker_lore = extract_marker_lore fixed_intro name;
           description_parts = add_new description_parts marker_lore;
           role_lore = extract_role_reveal_lore sentences;
           description_parts = add_new description_parts role_lore;
           scored = map (\<lambda>s. (s, score_sentence s name))
                      (filter (\<lambda>s. 30 \<le> length s \<and> length s \<le> 400) (map py_strip sentences));
           scored = sort_key (\<lambda>(s, sc). - sc) scored;
           selected = take 3 (map fst (filter (\<lambda>(s, sc). sc \<ge> 4) scored));
           description_parts = add_new description_parts selected;
           description = (if description_parts \<noteq> [] then py_join '' '' (take 3 description_parts)
                          else (case sentences of s # _ \<Rightarrow> s | [] \<Rightarrow> take 300 fixed_intro));
           description = clean_text description;
           description = py_strip (re_sub False (Plus sp) [T '' ''] description)
       in description)"

section \<open>Records\<close>

text \<open>A raw record is the dictionary read from the crawler's JSON. Each key the processor
  reads is a field; \<open>None\<close> is a missing key. \<open>sections\<close> is a dictionary in insertion order.
  The key \<open>infobox\<close> is never read.\<close>

record raw_character =
  raw_name :: "string option"
  raw_url :: "string option"
  raw_introduction :: "string option"
  raw_full_text :: "string option"
  raw_sections :: "(string \<times> string) list option"
  raw_infobox :: "(string \<times> string) list option"

text \<open>The processed record is a dictionary with a fixed set of keys. For each key the
  entry says whether the key is absent, holds \<open>None\<close>, or holds a value; this is what
  \<open>d.get(k)\<close>, \<open>d.get(k, default)\<close> and \<open>d[k]\<close> tell apart.\<close>

datatype 'a entry = Absent | Null | Val 'a

record info =
  info_name :: "string entry"
  info_url :: "string entry"
  info_element :: "string entry"
  info_weapon :: "string entry"
  info_rarity :: "int entry"
  info_region :: "string entry"
  info_model_type :: "string entry"
  info_title :: "string entry"
  info_affiliations :: "string list entry"
  info_constellation :: "string entry"
  info_roles :: "roles entry"
  info_role_summary :: "string entry"
  info_how_to_obtain :: "string list entry"
  info_release_date :: "string entry"
  info_voice_actors :: "(lang \<times> string) list entry"
  info_character_type :: "string entry"
  info_event_wishes_count :: "int entry"
  info_special_dish :: "string entry"
  info_namecard :: "string entry"
  info_real_name :: "string entry"
  info_birthday :: "string entry"
  info_description :: "string entry"
  info_sections :: "(string \<times> string) list entry"
  info_full_text :: "string entry"

definition empty_info :: info where
  "empty_info = \<lparr> info_name = Absent, info_url = Absent, info_element = Absent,
     info_weapon = Absent, info_rarity = Absent, info_region = Absent, info_model_type = Absent,
     info_title = Absent, info_affiliations = Absent, info_constellation = Absent,
     info_roles = Absent, info_role_summary = Absent, info_how_to_obtain = Absent,
     info_release_date = Absent, info_voice_actors = Absent, info_character_type = Absent,
     info_event_wishes_count = Absent, info_special_dish = Absent, info_namecard = Absent,
     info_real_name = Absent, info_birthday = Absent, info_description = Absent,
     info_sections = Absent, info_full_text = Absent \<rparr>"

text \<open>An extractor's \<open>Optional\<close> result stored under a key.\<close>

definition stored :: "'a option \<Rightarrow> 'a entry" where
  "stored v = (case v of None \<Rightarrow> Null | Some x \<Rightarrow> Val x)"

text \<open>Truth values of \<open>d.get(k)\<close> for a string, a list or dictionary, and a number.\<close>

definition truthy :: "'a list entry \<Rightarrow> bool" where
  "truthy e = (case e of Val x \<Rightarrow> x \<noteq> [] | _ \<Rightarrow> False)"

definition truthy_int :: "int entry \<Rightarrow> bool" where
  "truthy_int e = (case e of Val n \<Rightarrow> n \<noteq> 0 | _ \<Rightarrow> False)"

text \<open>\<open>str(n)\<close> for an integer.\<close>

fun digits :: "nat \<Rightarrow> string" where
  "digits n = (if n < 10 then [''0123456789'' ! n]
               else digits (n div 10) @ [''0123456789'' ! (n mod 10)])"

declare digits.simps [simp del]

definition str_int :: "int \<Rightarrow> string" where
  "str_int n = (if n < 0 then CHR ''-'' # digits (nat (- n)) else digits (nat n))"

text \<open>How an f-string prints the result of \<open>d.get(k)\<close>: the value, or \<open>None\<close>.\<close>

definition fmt :: "string entry \<Rightarrow> string" where
  "fmt e = (case e of Val s \<Rightarrow> s | _ \<Rightarrow> ''None'')"

definition fmt_int :: "int entry \<Rightarrow> string" where
  "fmt_int e = (case e of Val n \<Rightarrow> str_int n | _ \<Rightarrow> ''None'')"

text \<open>\<open>d.get(k, default)\<close>: the default replaces an absent key only.\<close>

definition get_default :: "'a entry \<Rightarrow> 'a \<Rightarrow> 'a entry" where
  "get_default e d = (case e of Absent \<Rightarrow> Val d | _ \<Rightarrow> e)"

definition upper_char :: "char \<Rightarrow> char" where
  "upper_char c =
     (case map_of (zip (''abcdefghijklmnopqrstuvwxyz'' @ latin1_lower)
                       (''ABCDEFGHIJKLMNOPQRSTUVWXYZ'' @ latin1_upper)) c of
        Some u \<Rightarrow> u | None \<Rightarrow> c)"

text \<open>\<open>str.capitalize\<close>; it is applied to the keys of \<open>voice_actors\<close> only.\<close>

definition py_capitalize :: "string \<Rightarrow> string" where
  "py_capitalize s = (case s of [] \<Rightarrow> [] | c # cs \<Rightarrow> upper_char c # py_lower cs)"

definition lang_key :: "lang \<Rightarrow> string" where
  "lang_key l = (case l of English \<Rightarrow> ''english'' | Chinese \<Rightarrow> ''chinese''
                 | Japanese \<Rightarrow> ''japanese'' | Korean \<Rightarrow> ''korean'')"

text \<open>\<open>d[k] = v\<close> on a dictionary in insertion order.\<close>

fun dict_set :: "'k \<Rightarrow> 'v \<Rightarrow> ('k \<times> 'v) list \<Rightarrow> ('k \<times> 'v) list" where
  "dict_set k v [] = [(k, v)]"
| "dict_set k v ((k', v') # d) = (if k' = k then (k', v) # d else (k', v') # dict_set k v d)"

section \<open>The record assembler\<close>

definition field_line :: "string \<Rightarrow> string entry \<Rightarrow> string list" where
  "field_line label value = (if truthy value then [''- '' @ label @ '': '' @ fmt value] else [])"

definition skip_sections :: "string list" where
  "skip_sections = [''Ascensions'', ''Stats'', ''Wishes'', ''Bargains'', ''Gallery'', ''Trivia'']"

definition newline :: string where
  "newline = [CHR 0x0A]"

definition create_rag_text :: "info \<Rightarrow> error + string" where
  "create_rag_text info =
    (case info_name info of
       Absent \<Rightarrow> Inl KeyError
     | _ \<Rightarrow>
       let parts = [''# '' @ fmt (info_name info)];
           parts = parts @ (if truthy (info_title info)
                            then [''Also known as: '' @ fmt (info_title info)] else []);
           parts = parts @ (if truthy (info_real_name info) \<and> info_real_name info \<noteq> info_name info
                            then [''Real name: '' @ fmt (info_real_name info)] else []);
           parts = parts @ [''''];
           parts = parts @ [''## Basic Information''];
           parts = parts @ field_line ''Element'' (info_element info);
           parts = parts @ field_line ''Weapon'' (info_weapon info);
           parts = parts @ (if truthy_int (info_rarity info)
                            then [''- Rarity: '' @ fmt_int (info_rarity info) @ ''-Star''] else []);
           parts = parts @ field_line ''Region'' (info_region info);
           parts = parts @ field_line ''Model'' (info_model_type info);
           parts = parts @ field_line ''Birthday'' (info_birthday info);
           parts = parts @ field_line ''Constellation'' (info_constellation info);
           parts = parts @ field_line ''Character Type'' (info_character_type info);
           parts = parts @ (case info_affiliations info of
                              Val affiliations \<Rightarrow>
                                if affiliations \<noteq> []
                                then [''- Affiliations: '' @ py_join '', '' affiliations] else []
                            | _ \<Rightarrow> []);
           parts = parts @ [''''];
           parts = parts @ (if truthy (info_role_summary info)
                            then [''## Character Roles'', ''- Role: '' @ fmt (info_role_summary info), '''']
                            else []);
           parts = parts @ (case info_how_to_obtain info of
                              Val methods \<Rightarrow>
                                if methods \<noteq> []
                                then [''## How to Obtain''] @ map (\<lambda>method. ''- '' @ method) methods
                                       @ (if truthy_int (info_event_wishes_count info)
                                          then [''- Featured in '' @ fmt_int (info_event_wishes_count info)
                                                  @ '' Event Wishes'']
                                          else [])
                                       @ ['''']
                                else []
                            | _ \<Rightarrow> []);
           parts = parts @ (if truthy (info_release_date info)
                            then [''## Release Date'', ''Released on: '' @ fmt (info_release_date info), '''']
                            else []);
           parts = parts @ (case info_voice_actors info of
                              Val actors \<Rightarrow>
                                if actors \<noteq> []
                                then [''## Voice Actors'']
                                       @ map (\<lambda>(lang, actor).
                                           ''- '' @ py_capitalize (lang_key lang) @ '': '' @ actor) actors
                                       @ ['''']
                                else []
                            | _ \<Rightarrow> []);
           parts = parts @ (if truthy (info_special_dish info)
                            then [''## Special Dish'', ''- '' @ fmt (info_special_dish info), '''']
                            else []);
           parts = parts @ (if truthy (info_namecard info)
                            then [''## Namecard'', ''- '' @ fmt (info_namecard info), '''']
                            else []);
           parts = parts @ (if truthy (info_description info)
                            then [''## About'', fmt (info_description info), '''']
                            else [])
       in (case get_default (info_sections info) [] of
             Val sections \<Rightarrow>
               Inr (py_join newline
                 (parts @ concat (map (\<lambda>(section_name, section_content).
                     if \<not> (\<exists>skip \<in> set skip_sections. py_in skip section_name)
                        \<and> section_content \<noteq> [] \<and> length section_content > 30
                     then [''## '' @ section_name, section_content, '''']
                     else []) sections)))
           | _ \<Rightarrow> Inl AttributeError))"

definition process_character :: "raw_character \<Rightarrow> error + info" where
  "process_character raw_data =
    (let name = (case raw_name raw_data of Some n \<Rightarrow> n | None \<Rightarrow> ''Unknown'');
         intro = (case raw_introduction raw_data of Some i \<Rightarrow> i | None \<Rightarrow> '''');
         info = empty_info \<lparr>
           info_name := Val name,
           info_url := Val (case raw_url raw_data of Some u \<Rightarrow> u | None \<Rightarrow> ''''),
           info_element := stored (extract_field intro element_options),
           info_weapon := stored (extract_field intro weapon_options),
           info_rarity := Val (extract_rarity name intro),
           info_region := stored (extract_field intro region_options),
           info_model_type := stored (extract_model_type intro),
           info_title := stored (extract_title intro),
           info_affiliations := Val (extract_affiliation intro),
           info_constellation := stored (extract_constellation intro) \<rparr>;
         roles = extract_character_roles intro;
         info = info \<lparr> info_roles := Val roles \<rparr>;
         info = info \<lparr> info_role_summary := Val (create_role_summary roles) \<rparr>;
         info = info \<lparr> info_how_to_obtain := Val (extract_how_to_obtain intro) \<rparr>;
         info = info \<lparr> info_release_date := stored (extract_release_date intro) \<rparr>;
         info = info \<lparr> info_voice_actors := Val (extract_voice_actors intro) \<rparr>;
         info = info \<lparr> info_character_type := Val (extract_character_type intro) \<rparr>
     in case extract_event_wishes intro of
          Inl e \<Rightarrow> Inl e
        | Inr event_wishes_count \<Rightarrow>
          let info = info \<lparr> info_event_wishes_count := stored event_wishes_count \<rparr>;
              info = info \<lparr> info_special_dish := stored (extract_special_dish intro) \<rparr>;
              info = info \<lparr> info_namecard := stored (extract_namecard intro) \<rparr>;
              info = info \<lparr> info_real_name := stored (extract_real_name intro) \<rparr>;
              info = (case re_search False birthday_re intro of
                        Some birthday_match \<Rightarrow> info \<lparr> info_birthday := Val (group birthday_match 1) \<rparr>
                      | None \<Rightarrow> info);
              info = info \<lparr> info_description := Val (extract_clean_description name intro
                        (case raw_full_text raw_data of Some t \<Rightarrow> t | None \<Rightarrow> '''')
                        (case raw_sections raw_data of Some s \<Rightarrow> s | None \<Rightarrow> [])
                        (case raw_url raw_data of Some u \<Rightarrow> u | None \<Rightarrow> '''')) \<rparr>;
              sections = (case raw_sections raw_data of Some s \<Rightarrow> s | None \<Rightarrow> []);
              info = info \<lparr> info_sections := Val
                        (foldl (\<lambda>d (k, v). dict_set (clean_section_name k) (clean_text v) d) []
                           (filter (\<lambda>(k, v). v \<noteq> [] \<and> length v > 20) sections)) \<rparr>
          in case create_rag_text info of
               Inl e \<Rightarrow> Inl e
             | Inr full_text \<Rightarrow> Inr (info \<lparr> info_full_text := Val full_text \<rparr>))"

text \<open>The batch driver \<open>process_all\<close>, applied to the list that it has loaded from the input
  file: a character whose processing raises is reported and skipped.\<close>

definition process_all :: "raw_character list \<Rightarrow> info list" where
  "process_all raw_data =
     concat (map (\<lambda>char. case process_character char of
                            Inr processed_char \<Rightarrow> [processed_char]
                          | Inl e \<Rightarrow> []) raw_data)"

section \<open>The chunker\<close>

datatype mval = MNone | MStr string | MInt int

definition meta_str :: "string entry \<Rightarrow> mval" where
  "meta_str e = (case e of Val s \<Rightarrow> MStr s | _ \<Rightarrow> MNone)"

definition meta_int :: "int entry \<Rightarrow> mval" where
  "meta_int e = (case e of Val n \<Rightarrow> MInt n | _ \<Rightarrow> MNone)"

record chunk =
  chunk_id :: string
  character :: string
  chunk_type :: string
  section_name :: "string option"
  content :: string
  metadata :: "(string \<times> mval) list"

text \<open>\<open>s.lower().replace(' ', '_')\<close>\<close>

definition id_part :: "string \<Rightarrow> string" where
  "id_part s = map (\<lambda>c. if c = CHR '' '' then CHR ''_'' else c) (py_lower s)"

definition basic_info_text :: "info \<Rightarrow> string" where
  "basic_info_text char =
    (let name = get_default (info_name char) ''Unknown'';
         basic_info =
           ''# '' @ fmt name @ newline @
           newline @
           ''## Basic Information'' @ newline @
           ''- Element: '' @ fmt (get_default (info_element char) ''Unknown'') @ newline @
           ''- Weapon: '' @ fmt (get_default (info_weapon char) ''Unknown'') @ newline @
           ''- Rarity: '' @ fmt_int (get_default (info_rarity char) 4) @ ''-Star'' @ newline @
           ''- Region: '' @ fmt (get_default (info_region char) ''Unknown'') @ newline @
           ''- Role: '' @ fmt (get_default (info_role_summary char) ''Unknown'') @ newline;
         basic_info = basic_info @ (case info_affiliations char of
                                      Val affiliations \<Rightarrow>
                                        if affiliations \<noteq> []
                                        then ''- Affiliations: '' @ py_join '', '' affiliations @ newline
                                        else []
                                    | _ \<Rightarrow> []);
         basic_info = basic_info @ (if truthy (info_birthday char)
                                    then ''- Birthday: '' @ fmt (info_birthday char) @ newline
                                    else []);
         basic_info = basic_info @ (if truthy (info_release_date char)
                                    then ''- Release Date: '' @ fmt (info_release_date char) @ newline
                                    else [])
     in basic_info)"

definition meta_content_text :: "string \<Rightarrow> info \<Rightarrow> string" where
  "meta_content_text name char =
    (let meta_content = ''# '' @ name @ '' - Additional Info'' @ newline @ newline;
         meta_content = meta_content @ (case info_voice_actors char of
                           Val actors \<Rightarrow>
                             if actors \<noteq> []
                             then ''## Voice Actors'' @ newline
                                    @ concat (map (\<lambda>(lang, actor).
                                        ''- '' @ py_capitalize (lang_key lang) @ '': '' @ actor @ newline) actors)
                                    @ newline
                             else []
                         | _ \<Rightarrow> []);
         meta_content = meta_content @ (if truthy (info_special_dish char)
                         then ''## Special Dish'' @ newline @ ''- ''
                                @ fmt (info_special_dish char) @ newline @ newline
                         else []);
         meta_content = meta_content @ (if truthy (info_namecard char)
                         then ''## Namecard'' @ newline @ ''- ''
                                @ fmt (info_namecard char) @ newline @ newline
                         else []);
         meta_content = meta_content @ (case info_how_to_obtain char of
                           Val methods \<Rightarrow>
                             if methods \<noteq> []
                             then ''## How to Obtain'' @ newline
                                    @ concat (map (\<lambda>method. ''- '' @ method @ newline) methods)
                             else []
                         | _ \<Rightarrow> [])
     in meta_content)"

definition character_chunks :: "info \<Rightarrow> error + chunk list" where
  "character_chunks char =
    (case get_default (info_name char) ''Unknown'' of
       Val name \<Rightarrow>
         (let chunks = [\<lparr> chunk_id = id_part name @ ''_basic'',
                          character = name,
                          chunk_type = ''basic_info'',
                          section_name = None,
                          content = py_strip (basic_info_text char),
                          metadata = [(''element'', meta_str (info_element char)),
                                      (''weapon'', meta_str (info_weapon char)),
                                      (''rarity'', meta_int (info_rarity char)),
                                      (''region'', meta_str (info_region char)),
                                      (''role_summary'', meta_str (info_role_summary char)),
                                      (''url'', meta_str (info_url char))] \<rparr>];
              chunks = chunks @ (case info_description char of
                          Val description \<Rightarrow>
                            if description \<noteq> [] \<and> length description > 50
                            then [\<lparr> chunk_id = id_part name @ ''_description'',
                                   character = name,
                                   chunk_type = ''description'',
                                   section_name = None,
                                   content = py_strip (''# '' @ name @ '' - Description'' @ newline
                                                       @ newline @ description @ newline),
                                   metadata = [(''element'', meta_str (info_element char)),
                                               (''weapon'', meta_str (info_weapon char)),
                                               (''region'', meta_str (info_region char)),
                                               (''url'', meta_str (info_url char))] \<rparr>]
                            else []
                        | _ \<Rightarrow> []);
              chunks = chunks @ (if truthy (info_voice_actors char) \<or> truthy (info_special_dish char)
                        then [\<lparr> chunk_id = id_part name @ ''_meta'',
                               character = name,
                               chunk_type = ''meta_info'',
                               section_name = None,
                               content = py_strip (meta_content_text name char),
                               metadata = [(''element'', meta_str (info_element char)),
                                           (''url'', meta_str (info_url char))] \<rparr>]
                        else [])
          in case get_default (info_sections char) [] of
               Val sections \<Rightarrow>
                 Inr (chunks @ concat (map (\<lambda>(sec_name, sec_content).
                        if sec_content \<noteq> [] \<and> length sec_content > 50
                        then [\<lparr> chunk_id = id_part name @ ''_'' @ id_part sec_name,
                                character = name,
                                chunk_type = ''section'',
                                section_name = Some sec_name,
                                content = py_strip (''# '' @ name @ '' - '' @ sec_name @ newline
                                                    @ newline @ sec_content @ newline),
                                metadata = [(''element'', meta_str (info_element char)),
                                            (''weapon'', meta_str (info_weapon char)),
                                            (''region'', meta_str (info_region char)),
                                            (''url'', meta_str (info_url char))] \<rparr>]
                        else []) sections))
             | _ \<Rightarrow> Inl AttributeError)
     | _ \<Rightarrow> Inl AttributeError)"

fun create_smart_chunks :: "info list \<Rightarrow> nat \<Rightarrow> error + chunk list" where
  "create_smart_chunks [] chunk_size = Inr []"
| "create_smart_chunks (char # data) chunk_size =
     (case character_chunks char of
        Inl e \<Rightarrow> Inl e
      | Inr chunks \<Rightarrow> (case create_smart_chunks data chunk_size of
                        Inl e \<Rightarrow> Inl e
                      | Inr rest \<Rightarrow> Inr (chunks @ rest)))"

section \<open>Notions used in the properties\<close>


section \<open>Properties\<close>

subsection \<open>Rarity\<close>

text \<open>
  Claim C2. \<open>extract_rarity\<close> returns 4 or 5 for every name and introduction, also for two
  empty strings, and it returns 5 whenever the name, or one of the whitespace-separated
  tokens of the name, is in the five-star list, whatever the introduction says.
\<close>

theorem extract_rarity_total:
  "extract_rarity name intro \<in> {4, 5} \<and>
   extract_rarity [] [] = 4 \<and>
   (name \<in> FIVE_STAR_CHARS \<or> (\<exists>part \<in> set (py_split name). part \<in> FIVE_STAR_CHARS)
      \<longrightarrow> extract_rarity name intro = 5)"
proof (intro conjI)
  show "extract_rarity [] [] = 4"
    by code_simp
qed (simp_all add: extract_rarity_def Let_def)

theorem extract_rarity_total_witness:
  "''Zhongli'' \<in> FIVE_STAR_CHARS \<and> extract_rarity ''Zhongli'' ''A consultant with no star marker.'' = 5"
proof -
  have h: "''Zhongli'' \<in> FIVE_STAR_CHARS"
    by (simp add: FIVE_STAR_CHARS_def)
  show ?thesis
    using h extract_rarity_total [of "''Zhongli''" "''A consultant with no star marker.''"]
    by blast
qed

subsection \<open>Records, rendering and chunks\<close>

lemma create_rag_text_ignores_full_text:
  "create_rag_text (i\<lparr>info_full_text := x\<rparr>) = create_rag_text i"
  by (simp add: create_rag_text_def Let_def split del: if_split cong: entry.case_cong if_cong)

lemma create_rag_text_ok:
  "info_name i = Val n \<Longrightarrow> info_sections i = Val s \<Longrightarrow> \<exists>ft. create_rag_text i = Inr ft"
  by (simp add: create_rag_text_def get_default_def Let_def split del: if_split)

lemma empty_info_birthday: "info_birthday empty_info = Absent"
  by (simp add: empty_info_def)

lemma process_character_fields:
  fixes raw :: raw_character
  defines "name \<equiv> (case raw_name raw of Some n \<Rightarrow> n | None \<Rightarrow> ''Unknown'')"
  defines "intro \<equiv> (case raw_introduction raw of Some i \<Rightarrow> i | None \<Rightarrow> '''')"
  assumes ok: "process_character raw = Inr info"
  shows "info_name info = Val name
    \<and> info_url info = Val (case raw_url raw of Some u \<Rightarrow> u | None \<Rightarrow> '''')
    \<and> info_element info = stored (extract_field intro element_options)
    \<and> info_weapon info = stored (extract_field intro weapon_options)
    \<and> info_rarity info = Val (extract_rarity name intro)
    \<and> info_region info = stored (extract_field intro region_options)
    \<and> info_model_type info = stored (extract_model_type intro)
    \<and> info_title info = stored (extract_title intro)
    \<and> info_affiliations info = Val (extract_affiliation intro)
    \<and> info_constellation info = stored (extract_constellation intro)
    \<and> info_roles info = Val (extract_character_roles intro)
    \<and> info_role_summary info = Val (create_role_summary (extract_character_roles intro))
    \<and> info_how_to_obtain info = Val (extract_how_to_obtain intro)
    \<and> info_release_date info = stored (extract_release_date intro)
    \<and> info_voice_actors info = Val (extract_voice_actors intro)
    \<and> info_character_type info = Val (extract_character_type intro)
    \<and> (\<exists>c. extract_event_wishes intro = Inr c \<and> info_event_wishes_count info = stored c)
    \<and> info_special_dish info = stored (extract_special_dish intro)
    \<and> info_namecard info = stored (extract_namecard intro)
    \<and> info_real_name info = stored (extract_real_name intro)
    \<and> info_birthday info = (case re_search False birthday_re intro of
                                 Some m \<Rightarrow> Val (group m 1) | None \<Rightarrow> Absent)
    \<and> info_description info = Val (extract_clean_description name intro
            (case raw_full_text raw of Some t \<Rightarrow> t | None \<Rightarrow> '''')
            (case raw_sections raw of Some s \<Rightarrow> s | None \<Rightarrow> [])
            (case raw_url raw of Some u \<Rightarrow> u | None \<Rightarrow> ''''))
    \<and> (\<exists>s. info_sections info = Val s)
    \<and> (\<exists>ft. info_full_text info = Val ft \<and> create_rag_text info = Inr ft)"
proof -
  from ok obtain c' where c': "extract_event_wishes intro = Inr c'"
    unfolding process_character_def Let_def intro_def
    by (cases "extract_event_wishes (case raw_introduction raw of Some i \<Rightarrow> i | None \<Rightarrow> '''')") simp_all
  show ?thesis
    using ok unfolding process_character_def Let_def c' [unfolded intro_def] name_def intro_def
    by (cases "re_search False birthday_re (case raw_introduction raw of None \<Rightarrow> [] | Some i \<Rightarrow> i)")
       (auto simp: empty_info_birthday create_rag_text_ignores_full_text split: sum.splits split del: if_split)
qed

lemma create_rag_text_Inl:
  "create_rag_text i = Inl e \<Longrightarrow> info_name i = Absent \<or> info_sections i = Null"
  by (cases "info_name i"; cases "info_sections i")
     (simp_all add: create_rag_text_def get_default_def Let_def split del: if_split)

lemma process_character_ok:
  assumes "extract_event_wishes (case raw_introduction raw of Some i \<Rightarrow> i | None \<Rightarrow> '''') = Inr c"
  shows "\<exists>info. process_character raw = Inr info"
proof (cases "process_character raw")
  case (Inr info)
  then show ?thesis by blast
next
  case (Inl e)
  then have False
    using assms unfolding process_character_def Let_def
    by (cases "re_search False birthday_re (case raw_introduction raw of None \<Rightarrow> [] | Some i \<Rightarrow> i)")
       (auto split: sum.splits split del: if_split dest!: create_rag_text_Inl)
  then show ?thesis ..
qed

lemma description_ignores_full_text:
  "extract_clean_description name intro ft1 sections url =
   extract_clean_description name intro ft2 sections url"
  unfolding extract_clean_description_def by (rule refl)

text \<open>
  Claim C4, as amended. Extraction and rendering are deterministic for raw records that
  hold their sections in the same order. Two raw records that agree on the keys \<open>name\<close>,
  \<open>url\<close>, \<open>introduction\<close> and on \<open>sections\<close>, with the sections in the same insertion order,
  are processed to the same result, in every field, whatever else they hold (the keys
  \<open>full_text\<close> and \<open>infobox\<close> are not read). When the event-wish count of the introduction
  converts to an integer, both are processed to one record, and rendering that record
  again with \<open>create_rag_text\<close> gives, character for character, the \<open>full_text\<close> that is
  stored in it; the rendering does not read the stored \<open>full_text\<close>. The same holds of
  every record that \<open>process_character\<close> returns.
\<close>

theorem process_character_deterministic:
  assumes "raw_name r1 = raw_name r2" and "raw_url r1 = raw_url r2"
    and "raw_introduction r1 = raw_introduction r2" and "raw_sections r1 = raw_sections r2"
  shows "process_character r1 = process_character r2
       \<and> (\<forall>c. extract_event_wishes (case raw_introduction r1 of Some i \<Rightarrow> i | None \<Rightarrow> '''') = Inr c
            \<longrightarrow> (\<exists>info full_text. process_character r1 = Inr info \<and> process_character r2 = Inr info
                   \<and> info_full_text info = Val full_text \<and> create_rag_text info = Inr full_text
                   \<and> create_rag_text (info\<lparr>info_full_text := Absent\<rparr>) = Inr full_text))
       \<and> (\<forall>info. process_character r1 = Inr info
            \<longrightarrow> (\<exists>full_text. info_full_text info = Val full_text
                   \<and> create_rag_text info = Inr full_text))"
proof (intro conjI allI impI)
  show eq: "process_character r1 = process_character r2"
    by (simp only: process_character_def assms
          description_ignores_full_text
            [of _ _ "case raw_full_text r1 of Some t \<Rightarrow> t | None \<Rightarrow> ''''" _ _
                    "case raw_full_text r2 of Some t \<Rightarrow> t | None \<Rightarrow> ''''"])
  show "\<exists>full_text. info_full_text info = Val full_text \<and> create_rag_text info = Inr full_text"
    if "process_character r1 = Inr info" for info
    using process_character_fields [OF that] by blast
  show "\<exists>info full_text. process_character r1 = Inr info \<and> process_character r2 = Inr info
          \<and> info_full_text info = Val full_text \<and> create_rag_text info = Inr full_text
          \<and> create_rag_text (info\<lparr>info_full_text := Absent\<rparr>) = Inr full_text"
    if c: "extract_event_wishes (case raw_introduction r1 of Some i \<Rightarrow> i | None \<Rightarrow> '''') = Inr c" for c
  proof -
    from process_character_ok [OF c] obtain info where info: "process_character r1 = Inr info"
      by blast
    from process_character_fields [OF info] obtain full_text
      where "info_full_text info = Val full_text" "create_rag_text info = Inr full_text"
      by blast
    with info eq show ?thesis
      by (auto simp: create_rag_text_ignores_full_text)
  qed
qed

text \<open>Two raw records that hold the same two sections, one as \<open>Lore\<close>, \<open>Story\<close> and the other as
  \<open>Story\<close>, \<open>Lore\<close>, are equal as Python dictionaries (the two section maps are the same
  map), and their \<open>full_text\<close> differs: the sections are rendered in insertion order.\<close>

theorem section_order_counterexample:
  "map_of [(''Lore'', ''A quiet scholar of the old city.''),
           (''Story'', ''She keeps the harbor lights lit.'')]
     = map_of [(''Story'', ''She keeps the harbor lights lit.''),
               (''Lore'', ''A quiet scholar of the old city.'')]
   \<and> (case process_character
       \<lparr> raw_name = Some ''A'', raw_url = None, raw_introduction = None, raw_full_text = None,
         raw_sections = Some [(''Lore'', ''A quiet scholar of the old city.''),
                              (''Story'', ''She keeps the harbor lights lit.'')],
         raw_infobox = None \<rparr> of Inr info \<Rightarrow> info_full_text info | Inl e \<Rightarrow> Absent)
   \<noteq> (case process_character
       \<lparr> raw_name = Some ''A'', raw_url = None, raw_introduction = None, raw_full_text = None,
         raw_sections = Some [(''Story'', ''She keeps the harbor lights lit.''),
                              (''Lore'', ''A quiet scholar of the old city.'')],
         raw_infobox = None \<rparr> of Inr info \<Rightarrow> info_full_text info | Inl e \<Rightarrow> Absent)"
proof (rule conjI)
  show "map_of [(''Lore'', ''A quiet scholar of the old city.''),
           (''Story'', ''She keeps the harbor lights lit.'')]
     = map_of [(''Story'', ''She keeps the harbor lights lit.''),
               (''Lore'', ''A quiet scholar of the old city.'')]"
    by (rule ext) simp
next
  show "(case process_character
       \<lparr> raw_name = Some ''A'', raw_url = None, raw_introduction = None, raw_full_text = None,
         raw_sections = Some [(''Lore'', ''A quiet scholar of the old city.''),
                              (''Story'', ''She keeps the harbor lights lit.'')],
         raw_infobox = None \<rparr> of Inr info \<Rightarrow> info_full_text info | Inl e \<Rightarrow> Absent)
   \<noteq> (case process_character
       \<lparr> raw_name = Some ''A'', raw_url = None, raw_introduction = None, raw_full_text = None,
         raw_sections = Some [(''Story'', ''She keeps the harbor lights lit.''),
                              (''Lore'', ''A quiet scholar of the old city.'')],
         raw_infobox = None \<rparr> of Inr info \<Rightarrow> info_full_text info | Inl e \<Rightarrow> Absent)"
    by code_simp
qed

lemma starts_with_append: "starts_with (p @ v) p"
  by (induction p) simp_all

lemma py_in_middle: "py_in sub (u @ sub @ v)"
proof (induction u)
  case Nil
  show ?case by (cases "sub @ v") (use starts_with_append [of sub v] in auto)
next
  case (Cons c u)
  then show ?case by simp
qed

lemma py_strip_keeps_middle:
  assumes "A \<noteq> []" and "\<not> is_space (hd A)" and "\<exists>c \<in> set B. \<not> is_space c"
  shows "\<exists>B'. py_strip (A @ M @ B) = A @ M @ B'"
proof -
  from assms(1,2) have "dropWhile is_space (A @ M @ B) = A @ M @ B"
    by (cases A) simp_all
  moreover from assms(3) obtain c where "c \<in> set (rev B)" and "\<not> is_space c"
    by auto
  then have "dropWhile is_space (rev B @ rev M @ rev A)
      = dropWhile is_space (rev B) @ rev M @ rev A"
    by (rule dropWhile_append1)
  ultimately have "py_strip (A @ M @ B) = A @ M @ rev (dropWhile is_space (rev B))"
    by (simp add: py_strip_def)
  then show ?thesis by blast
qed

lemma character_chunks_kinds:
  assumes "info_name char = Val n" and "info_sections char = Val s" and "info_description char = Val d"
  shows "\<exists>chunks. character_chunks char = Inr chunks
          \<and> chunks \<noteq> []
          \<and> chunk_type (hd chunks) = ''basic_info''
          \<and> content (hd chunks) = py_strip (basic_info_text char)
          \<and> length (filter (\<lambda>c. chunk_type c = ''basic_info'') chunks) = 1
          \<and> length (filter (\<lambda>c. chunk_type c = ''description'') chunks) = (if 50 < length d then 1 else 0)"
proof -
  have sec: "\<And>P f g m t. t \<noteq> ''section'' \<Longrightarrow>
     filter (\<lambda>c. chunk_type c = t) (concat (map (\<lambda>(sec_name, sec_content).
        if P sec_name sec_content then [\<lparr> chunk_id = f sec_name, character = n,
             chunk_type = ''section'', section_name = Some sec_name,
             content = g sec_name sec_content, metadata = m \<rparr>] else []) s)) = []"
    by (auto simp: filter_empty_conv split: if_splits)
  show ?thesis
    unfolding character_chunks_def Let_def
    by (simp add: assms get_default_def sec)
qed

lemma process_all_member:
  "char \<in> set (process_all raws) \<Longrightarrow> \<exists>raw. process_character raw = Inr char"
  by (auto simp: process_all_def split: sum.splits)

lemma processed_entries:
  assumes "char \<in> set (process_all raws)"
  shows "\<exists>n s d. info_name char = Val n \<and> info_sections char = Val s \<and> info_description char = Val d"
proof -
  from assms obtain raw where "process_character raw = Inr char"
    using process_all_member by blast
  from process_character_fields [OF this] show ?thesis by blast
qed

lemma create_smart_chunks_single:
  "create_smart_chunks [char] chunk_size = character_chunks char"
  by (cases "character_chunks char") simp_all

lemma create_smart_chunks_counts:
  assumes "\<forall>char \<in> set data. \<exists>n s d. info_name char = Val n \<and> info_sections char = Val s
              \<and> info_description char = Val d"
  shows "\<exists>chunks. create_smart_chunks data chunk_size = Inr chunks
     \<and> length (filter (\<lambda>c. chunk_type c = ''basic_info'') chunks) = length data
     \<and> length (filter (\<lambda>c. chunk_type c = ''description'') chunks)
         = length (filter (\<lambda>char. case info_description char of Val d \<Rightarrow> 50 < length d | _ \<Rightarrow> False) data)"
  using assms
proof (induction data)
  case Nil
  show ?case by simp
next
  case (Cons char data)
  then obtain n s d where e: "info_name char = Val n" "info_sections char = Val s"
      "info_description char = Val d"
    by auto
  from character_chunks_kinds [OF e] obtain cs where cs: "character_chunks char = Inr cs"
      "length (filter (\<lambda>c. chunk_type c = ''basic_info'') cs) = 1"
      "length (filter (\<lambda>c. chunk_type c = ''description'') cs) = (if 50 < length d then 1 else 0)"
    by blast
  from Cons obtain rest where rest: "create_smart_chunks data chunk_size = Inr rest"
      "length (filter (\<lambda>c. chunk_type c = ''basic_info'') rest) = length data"
      "length (filter (\<lambda>c. chunk_type c = ''description'') rest)
         = length (filter (\<lambda>char. case info_description char of Val d \<Rightarrow> 50 < length d | _ \<Rightarrow> False) data)"
    by auto
  show ?case
    by (simp add: cs rest e)
qed

text \<open>
  Claim C8. Every processed record holds a name, a description and sections. For the
  records of a batch the chunker emits exactly one \<open>basic_info\<close> chunk per record, and as
  many \<open>description\<close> chunks as there are records whose description is longer than 50
  characters. For a single such record it emits one \<open>basic_info\<close> chunk, and a
  \<open>description\<close> chunk exactly when the description is longer than 50 characters; so a
  description of 40 characters gives a \<open>basic_info\<close> chunk and no \<open>description\<close> chunk.
\<close>

theorem chunks_basic_and_description:
  "(\<forall>char \<in> set (process_all raws).
       \<exists>n s d. info_name char = Val n \<and> info_sections char = Val s \<and> info_description char = Val d)
   \<and> (\<exists>chunks. create_smart_chunks (process_all raws) chunk_size = Inr chunks
      \<and> length (filter (\<lambda>c. chunk_type c = ''basic_info'') chunks) = length (process_all raws)
      \<and> length (filter (\<lambda>c. chunk_type c = ''description'') chunks)
          = length (filter (\<lambda>char. case info_description char of Val d \<Rightarrow> 50 < length d | _ \<Rightarrow> False)
                      (process_all raws)))
   \<and> (info_name char = Val n \<and> info_sections char = Val s \<and> info_description char = Val d \<longrightarrow>
        (\<exists>chunks. create_smart_chunks [char] chunk_size = Inr chunks
          \<and> length (filter (\<lambda>c. chunk_type c = ''basic_info'') chunks) = 1
          \<and> ((\<exists>c \<in> set chunks. chunk_type c = ''description'') \<longleftrightarrow> 50 < length d)))"
proof (intro conjI ballI impI)
  fix char
  assume "char \<in> set (process_all raws)"
  then show "\<exists>n s d. info_name char = Val n \<and> info_sections char = Val s \<and> info_description char = Val d"
    by (rule processed_entries)
next
  show "\<exists>chunks. create_smart_chunks (process_all raws) chunk_size = Inr chunks
      \<and> length (filter (\<lambda>c. chunk_type c = ''basic_info'') chunks) = length (process_all raws)
      \<and> length (filter (\<lambda>c. chunk_type c = ''description'') chunks)
          = length (filter (\<lambda>char. case info_description char of Val d \<Rightarrow> 50 < length d | _ \<Rightarrow> False)
                      (process_all raws))"
    by (rule create_smart_chunks_counts) (use processed_entries in blast)
next
  assume "info_name char = Val n \<and> info_sections char = Val s \<and> info_description char = Val d"
  then have e: "info_name char = Val n" "info_sections char = Val s" "info_description char = Val d"
    by simp_all
  from character_chunks_kinds [OF e] obtain cs where cs: "character_chunks char = Inr cs"
      "length (filter (\<lambda>c. chunk_type c = ''basic_info'') cs) = 1"
      "length (filter (\<lambda>c. chunk_type c = ''description'') cs) = (if 50 < length d then 1 else 0)"
    by blast
  have "(\<exists>c \<in> set cs. chunk_type c = ''description'') \<longleftrightarrow> 50 < length d"
  proof -
    have "(\<exists>c \<in> set cs. chunk_type c = ''description'')
            \<longleftrightarrow> filter (\<lambda>c. chunk_type c = ''description'') cs \<noteq> []"
      by (simp add: filter_empty_conv)
    also have "\<dots> \<longleftrightarrow> 50 < length d"
      using cs(3) by (cases "filter (\<lambda>c. chunk_type c = ''description'') cs") (auto split: if_splits)
    finally show ?thesis .
  qed
  then show "\<exists>chunks. create_smart_chunks [char] chunk_size = Inr chunks
          \<and> length (filter (\<lambda>c. chunk_type c = ''basic_info'') chunks) = 1
          \<and> ((\<exists>c \<in> set chunks. chunk_type c = ''description'') \<longleftrightarrow> 50 < length d)"
    by (simp add: create_smart_chunks_single cs)
qed

theorem chunks_basic_and_description_witness:
  "length ''Amber is an outrider for Mondstadt city.'' = 40 \<and>
   (\<exists>chunks. create_smart_chunks
        [empty_info \<lparr> info_name := Val ''Amber'',
                      info_description := Val ''Amber is an outrider for Mondstadt city.'',
                      info_sections := Val [] \<rparr>] 800 = Inr chunks
      \<and> length (filter (\<lambda>c. chunk_type c = ''basic_info'') chunks) = 1
      \<and> \<not> (\<exists>c \<in> set chunks. chunk_type c = ''description''))"
  using chunks_basic_and_description
    [of "[]" 800 "empty_info \<lparr> info_name := Val ''Amber'',
                      info_description := Val ''Amber is an outrider for Mondstadt city.'',
                      info_sections := Val [] \<rparr>" "''Amber''" "[]"
        "''Amber is an outrider for Mondstadt city.''"]
  by simp

lemma keyword_fields_empty:
  "extract_field [] element_options = None"
  "extract_field [] weapon_options = None"
  "extract_field [] region_options = None"
  "extract_model_type [] = None"
  by code_simp+

lemma extract_affiliation_empty: "extract_affiliation [] = []"
proof -
  have "extract_affiliation [] = filter (\<lambda>a. a = []) affiliation_keywords"
    by (simp add: extract_affiliation_def py_lower_def)
  also have "\<dots> = []"
    by code_simp
  finally show ?thesis .
qed

lemma regex_fields_empty:
  "extract_title [] = None"
  "extract_constellation [] = None"
  "extract_release_date [] = None"
  "extract_voice_actors [] = []"
  "extract_event_wishes [] = Inr None"
  "extract_special_dish [] = None"
  "extract_namecard [] = None"
  "extract_real_name [] = None"
  "re_search False birthday_re [] = None"
  by code_simp+

lemma text_fields_empty:
  "extract_character_roles [] = \<lparr> on_field = False, off_field = False, dps = False,
                                  support = False, survivability = False \<rparr>"
  "create_role_summary \<lparr> on_field = False, off_field = False, dps = False,
                         support = False, survivability = False \<rparr> = ''Unknown''"
  "extract_how_to_obtain [] = [''Wishes'']"
  "extract_character_type [] = ''Biological''"
  by code_simp+

lemma extract_rarity_empty_intro:
  "extract_rarity name [] \<in> {4, 5}"
  by (simp add: extract_rarity_def Let_def)

lemma process_character_depends:
  assumes "(case raw_name r1 of Some n \<Rightarrow> n | None \<Rightarrow> ''Unknown'')
             = (case raw_name r2 of Some n \<Rightarrow> n | None \<Rightarrow> ''Unknown'')"
    and "raw_url r1 = raw_url r2"
    and "(case raw_introduction r1 of Some i \<Rightarrow> i | None \<Rightarrow> '''')
           = (case raw_introduction r2 of Some i \<Rightarrow> i | None \<Rightarrow> '''')"
    and "raw_sections r1 = raw_sections r2"
  shows "process_character r1 = process_character r2"
  by (simp only: process_character_def assms
        description_ignores_full_text
          [of _ _ "case raw_full_text r1 of Some t \<Rightarrow> t | None \<Rightarrow> ''''" _ _
                  "case raw_full_text r2 of Some t \<Rightarrow> t | None \<Rightarrow> ''''"])

text \<open>A greedy \<open>\d+\<close> (or any starred class) that starts in a run of one character of the
  class takes the whole run first. With it, the match that \<open>extract_event_wishes\<close> finds in
  \<open>featured\<close>, \<open>n\<close> digits, \<open>Event Wish\<close> captures all the digits.\<close>

lemma ms_Star_Cls_run:
  assumes "P d" and "case a of [] \<Rightarrow> True | x # _ \<Rightarrow> \<not> P x"
  shows "\<exists>tl. ms ic (Star (Cls P)) (g, b, replicate n d @ a) = (g, replicate n d @ b, a) # tl"
proof (induction n arbitrary: b)
  case 0
  from assms(2) have "ms ic (Cls P) (g, b, a) = []"
    by (cases a) simp_all
  then show ?case by simp
next
  case (Suc n)
  from Suc [of "d # b"] obtain tl
    where "ms ic (Star (Cls P)) (g, d # b, replicate n d @ a) = (g, replicate n d @ d # b, a) # tl"
    by blast
  then show ?case
    using assms(1) by (simp add: replicate_app_Cons_same)
qed

lemma search_from_first_letter:
  assumes "\<forall>x \<in> set a. lower_char x \<noteq> lower_char c"
  shows "search_from True (Seq (Seq (Lit c) r1) r2) b a = None"
  using assms
proof (induction a arbitrary: b)
  case Nil
  then show ?case by simp
next
  case (Cons x xs)
  then show ?case by simp
qed

lemma lower_not_p:
  "\<forall>x \<in> set (''featured'' @ replicate n CHR ''1'' @ ''Event Wish''). lower_char x \<noteq> lower_char CHR ''p''"
proof -
  have "list_all (\<lambda>x. lower_char x \<noteq> lower_char CHR ''p'') ''featured1Event Wish''"
    by code_simp
  then show ?thesis
    by (auto simp: list_all_iff)
qed

lemma ms_count_tail:
  "ms True (Seq (Star sp) (Seq (Str ''Event Wish'') Eps)) (g, b, ''Event Wish'')
     = [(g, rev ''Event Wish'' @ b, [])]"
  by (simp add: Str_def is_space_def)

lemma ms_featured:
  "ms True (Str ''featured'') (g, b, ''featured'' @ a) = [(g, rev ''featured'' @ b, a)]"
  by (simp add: Str_def)

lemma event_wishes_long_count:
  "\<exists>m. re_search True (event_wishes_patterns ! 1)
          (''featured'' @ replicate (Suc n) CHR ''1'' @ ''Event Wish'') = Some m
       \<and> group m 1 = replicate (Suc n) CHR ''1''"
proof -
  let ?E = "''Event Wish''"
  let ?b = "rev ''featured''"
  let ?R2 = "Seq (Star sp) (Seq (Str ''Event Wish'') Eps)"
  let ?R = "Seq (Grp 1 (Seq digit (Star digit))) ?R2"
  have d: "is_digit CHR ''1''" "\<not> is_digit CHR ''E''"
    by (simp_all add: is_digit_def)
  obtain tl where star: "ms True (Star digit) ([], CHR ''1'' # ?b, replicate n CHR ''1'' @ ?E)
      = ([], replicate n CHR ''1'' @ CHR ''1'' # ?b, ?E) # tl"
    using ms_Star_Cls_run [of is_digit "CHR ''1''" ?E True "[]" "CHR ''1'' # ?b" n] d by auto
  have plus: "ms True (Seq digit (Star digit)) ([], ?b, replicate (Suc n) CHR ''1'' @ ?E)
      = ([], replicate n CHR ''1'' @ CHR ''1'' # ?b, ?E) # tl"
    using star d by simp
  have grp: "ms True (Grp 1 (Seq digit (Star digit))) ([], ?b, replicate (Suc n) CHR ''1'' @ ?E)
      = ([(1, replicate (Suc n) CHR ''1'')], replicate n CHR ''1'' @ CHR ''1'' # ?b, ?E)
        # map (\<lambda>(g', b', a'). ((1, rev (take (length b' - length ?b) b')) # g', b', a')) tl"
    by (simp only: ms.simps(8) plus) (simp add: replicate_append_same)
  obtain tl2 where r: "ms True ?R ([], ?b, replicate (Suc n) CHR ''1'' @ ?E)
      = ([(1, replicate (Suc n) CHR ''1'')], rev ?E @ replicate n CHR ''1'' @ CHR ''1'' # ?b, []) # tl2"
    unfolding ms.simps(4) [of True "Grp 1 (Seq digit (Star digit))"] grp
    by (simp only: list.map concat.simps ms_count_tail append_Cons append_Nil)
  obtain tl3 where lazy: "ms True (Seq (Lazy dot) ?R) ([], ?b, replicate (Suc n) CHR ''1'' @ ?E)
      = ([(1, replicate (Suc n) CHR ''1'')], rev ?E @ replicate n CHR ''1'' @ CHR ''1'' # ?b, []) # tl3"
    unfolding ms.simps(4) [of True "Lazy dot"]
      ms.simps(7) [of True dot "[]" ?b "replicate (Suc n) CHR ''1'' @ ?E"]
    by (simp only: list.map concat.simps r append_Cons)
  have pat: "event_wishes_patterns ! 1 = Seq (Str ''featured'') (Seq (Lazy dot) (Seq (Grp 1 (Seq digit (Star digit))) (Seq (Star sp) (Seq (Str ''Event Wish'') Eps))))"
    by (simp add: event_wishes_patterns_def Seqs_def Plus_def)
  have "ms True (event_wishes_patterns ! 1) ([], [], ''featured'' @ replicate (Suc n) CHR ''1'' @ ?E)
      = ([(1, replicate (Suc n) CHR ''1'')], rev ?E @ replicate n CHR ''1'' @ CHR ''1'' # ?b, []) # tl3"
    unfolding pat ms.simps(4) [of True "Str ''featured''"] ms_featured
    using lazy by simp
  then show ?thesis
    unfolding re_search_def by (subst search_from.simps) (simp add: group_def)
qed

lemma extract_event_wishes_raises:
  "extract_event_wishes (''featured'' @ replicate 4301 CHR ''1'' @ ''Event Wish'') = Inl ValueError"
proof -
  define intro where "intro = ''featured'' @ replicate 4301 CHR ''1'' @ ''Event Wish''"
  obtain r1 r2 where pats:
    "event_wishes_patterns = [Seq (Seq (Lit CHR ''p'') r1) r2, event_wishes_patterns ! 1]"
    by (simp add: event_wishes_patterns_def Seqs_def Str_def)
  have first: "re_search True (Seq (Seq (Lit CHR ''p'') r1) r2) intro = None"
    unfolding re_search_def intro_def by (rule search_from_first_letter) (rule lower_not_p)
  from event_wishes_long_count [of 4300] obtain m
    where m: "re_search True (event_wishes_patterns ! 1) intro = Some m"
      "group m 1 = replicate 4301 CHR ''1''"
    unfolding intro_def by auto
  have "first_valid True event_wishes_patterns Some intro = Some m"
    by (subst pats) (simp only: first_valid.simps first m(1) option.case)
  moreover have "py_int (replicate 4301 CHR ''1'') = Inl ValueError"
    by (simp add: py_int_def)
  ultimately have "extract_event_wishes intro = Inl ValueError"
    by (simp only: extract_event_wishes_def option.case m(2) sum.case)
  then show ?thesis
    unfolding intro_def .
qed

lemma process_character_raises:
  "process_character \<lparr> raw_name = None, raw_url = None,
       raw_introduction = Some (''featured'' @ replicate 4301 CHR ''1'' @ ''Event Wish''),
       raw_full_text = None, raw_sections = None, raw_infobox = None \<rparr> = Inl ValueError"
  by (simp only: process_character_def Let_def raw_character.select_convs option.case
        extract_event_wishes_raises sum.case)

text \<open>The record without any key is not processed like the record whose name is the
  empty string: its name is \<open>Unknown\<close>. And processing raises \<open>ValueError\<close> for the record
  without a name whose introduction is \<open>featured\<close>, 4301 digits, \<open>Event Wish\<close>: \<open>int\<close> refuses
  a string of more than 4300 digits, and nothing catches the exception inside
  \<open>process_character\<close>.\<close>

theorem missing_name_counterexample:
  "process_character \<lparr> raw_name = None, raw_url = None, raw_introduction = None,
                       raw_full_text = None, raw_sections = None, raw_infobox = None \<rparr>
   \<noteq> process_character \<lparr> raw_name = Some '''', raw_url = None, raw_introduction = None,
                       raw_full_text = None, raw_sections = None, raw_infobox = None \<rparr>
   \<and> process_character \<lparr> raw_name = None, raw_url = None,
        raw_introduction = Some (''featured'' @ replicate 4301 CHR ''1'' @ ''Event Wish''),
        raw_full_text = None, raw_sections = None, raw_infobox = None \<rparr> = Inl ValueError"
proof (rule conjI)
  let ?r0 = "\<lparr> raw_name = None, raw_url = None, raw_introduction = None,
                raw_full_text = None, raw_sections = None, raw_infobox = None \<rparr>"
  let ?r1 = "\<lparr> raw_name = Some '''', raw_url = None, raw_introduction = None,
                raw_full_text = None, raw_sections = None, raw_infobox = None \<rparr>"
  show "process_character ?r0 \<noteq> process_character ?r1"
  proof
    assume eq: "process_character ?r0 = process_character ?r1"
    obtain info where info: "process_character ?r0 = Inr info"
      using process_character_ok [of ?r0 None] by (auto simp: regex_fields_empty)
    have "info_name info = Val ''Unknown''"
      using process_character_fields [OF info] by simp
    moreover have "info_name info = Val ''''"
      using process_character_fields [OF info [unfolded eq]] by simp
    ultimately show False by simp
  qed
next
  show "process_character \<lparr> raw_name = None, raw_url = None,
        raw_introduction = Some (''featured'' @ replicate 4301 CHR ''1'' @ ''Event Wish''),
        raw_full_text = None, raw_sections = None, raw_infobox = None \<rparr> = Inl ValueError"
    by (rule process_character_raises)
qed

text \<open>
  Claim C9, as amended. A raw record without the key \<open>name\<close> is processed as if the name
  were \<open>Unknown\<close> (not the empty string), and processing does not raise when the
  event-wish count of its introduction converts to an integer. A raw record without the
  key \<open>introduction\<close> is processed as if the introduction were empty; processing does not
  raise, and every field that is extracted from the introduction takes \<open>None\<close> or its
  default: no element, weapon, region, model type, title, constellation, release date,
  event-wish count, special dish, namecard or real name, no birthday key, no
  affiliations, no voice actors, all roles false, role summary \<open>Unknown\<close>, \<open>Wishes\<close> as the
  only way to obtain, character type \<open>Biological\<close>, and rarity 4 or 5.
\<close>

theorem missing_keys_defaults:
  "(raw_name raw = None \<longrightarrow>
      process_character raw = process_character (raw\<lparr>raw_name := Some ''Unknown''\<rparr>)
      \<and> (\<forall>c. extract_event_wishes (case raw_introduction raw of Some i \<Rightarrow> i | None \<Rightarrow> '''') = Inr c
             \<longrightarrow> (\<exists>info. process_character raw = Inr info \<and> info_name info = Val ''Unknown'')))
   \<and> (raw_introduction raw = None \<longrightarrow>
        process_character raw = process_character (raw\<lparr>raw_introduction := Some ''''\<rparr>)
        \<and> (\<exists>info. process_character raw = Inr info
             \<and> info_element info = Null \<and> info_weapon info = Null \<and> info_region info = Null
             \<and> info_model_type info = Null \<and> info_title info = Null
             \<and> info_constellation info = Null \<and> info_release_date info = Null
             \<and> info_event_wishes_count info = Null \<and> info_special_dish info = Null
             \<and> info_namecard info = Null \<and> info_real_name info = Null
             \<and> info_birthday info = Absent
             \<and> info_affiliations info = Val [] \<and> info_voice_actors info = Val []
             \<and> info_roles info = Val \<lparr> on_field = False, off_field = False, dps = False,
                                        support = False, survivability = False \<rparr>
             \<and> info_role_summary info = Val ''Unknown''
             \<and> info_how_to_obtain info = Val [''Wishes'']
             \<and> info_character_type info = Val ''Biological''
             \<and> info_rarity info \<in> {Val 4, Val 5}))"
proof (intro conjI impI allI)
  assume "raw_name raw = None"
  then show "process_character raw = process_character (raw\<lparr>raw_name := Some ''Unknown''\<rparr>)"
    by (intro process_character_depends) simp_all
next
  fix c
  assume none: "raw_name raw = None"
    and c: "extract_event_wishes (case raw_introduction raw of Some i \<Rightarrow> i | None \<Rightarrow> '''') = Inr c"
  from process_character_ok [OF c] obtain info where info: "process_character raw = Inr info"
    by blast
  from process_character_fields [OF info] have "info_name info = Val ''Unknown''"
    by (simp add: none)
  with info show "\<exists>info. process_character raw = Inr info \<and> info_name info = Val ''Unknown''"
    by blast
next
  assume "raw_introduction raw = None"
  then show "process_character raw = process_character (raw\<lparr>raw_introduction := Some ''''\<rparr>)"
    by (intro process_character_depends) simp_all
next
  assume none: "raw_introduction raw = None"
  obtain info where info: "process_character raw = Inr info"
    using process_character_ok [of raw None] by (auto simp: none regex_fields_empty)
  have "extract_rarity (case raw_name raw of Some n \<Rightarrow> n | None \<Rightarrow> ''Unknown'') [] \<in> {4, 5}"
    by (rule extract_rarity_empty_intro)
  then show "\<exists>info. process_character raw = Inr info
             \<and> info_element info = Null \<and> info_weapon info = Null \<and> info_region info = Null
             \<and> info_model_type info = Null \<and> info_title info = Null
             \<and> info_constellation info = Null \<and> info_release_date info = Null
             \<and> info_event_wishes_count info = Null \<and> info_special_dish info = Null
             \<and> info_namecard info = Null \<and> info_real_name info = Null
             \<and> info_birthday info = Absent
             \<and> info_affiliations info = Val [] \<and> info_voice_actors info = Val []
             \<and> info_roles info = Val \<lparr> on_field = False, off_field = False, dps = False,
                                        support = False, survivability = False \<rparr>
             \<and> info_role_summary info = Val ''Unknown''
             \<and> info_how_to_obtain info = Val [''Wishes'']
             \<and> info_character_type info = Val ''Biological''
             \<and> info_rarity info \<in> {Val 4, Val 5}"
    using process_character_fields [OF info] info
    by (intro exI [of _ info])
       (auto simp: none keyword_fields_empty extract_affiliation_empty regex_fields_empty
                   text_fields_empty stored_def)
qed

theorem missing_keys_defaults_witness:
  "raw_name \<lparr> raw_name = None, raw_url = None, raw_introduction = None,
              raw_full_text = None, raw_sections = None, raw_infobox = None \<rparr> = None
   \<and> raw_introduction \<lparr> raw_name = None, raw_url = None, raw_introduction = None,
              raw_full_text = None, raw_sections = None, raw_infobox = None \<rparr> = None
   \<and> extract_event_wishes [] = Inr None
   \<and> (\<exists>info. process_character \<lparr> raw_name = None, raw_url = None, raw_introduction = None,
                  raw_full_text = None, raw_sections = None, raw_infobox = None \<rparr> = Inr info
          \<and> info_name info = Val ''Unknown''
          \<and> info_element info = Null \<and> info_birthday info = Absent
          \<and> info_how_to_obtain info = Val [''Wishes''])"
proof -
  let ?r = "\<lparr> raw_name = None, raw_url = None, raw_introduction = None,
              raw_full_text = None, raw_sections = None, raw_infobox = None \<rparr>"
  have n: "raw_name ?r = None" "raw_introduction ?r = None"
    by simp_all
  have e: "extract_event_wishes [] = Inr None"
    by (rule regex_fields_empty)
  then have e': "extract_event_wishes (case raw_introduction ?r of Some i \<Rightarrow> i | None \<Rightarrow> '''') = Inr None"
    by simp
  note t1 = missing_keys_defaults [of ?r, THEN conjunct1, rule_format, OF n(1), THEN conjunct2,
              rule_format, OF e']
  note t2 = missing_keys_defaults [of ?r, THEN conjunct2, rule_format, OF n(2), THEN conjunct2]
  from t1 obtain i1 where i1: "process_character ?r = Inr i1" "info_name i1 = Val ''Unknown''"
    by blast
  from t2 obtain i2 where i2: "process_character ?r = Inr i2" "info_element i2 = Null"
      "info_birthday i2 = Absent" "info_how_to_obtain i2 = Val [''Wishes'']"
    by blast
  from i1(1) i2(1) have "i1 = i2"
    by simp
  with i1 i2 n e show ?thesis
    by blast
qed

lemma stored_not_absent: "stored v \<noteq> Absent"
  by (cases v) (simp_all add: stored_def)

lemma get_default_present: "e \<noteq> Absent \<Longrightarrow> get_default e d = e"
  by (cases e) (simp_all add: get_default_def)

lemma line_in_stripped:
  assumes "text = (CHR ''#'' # A) @ M @ (CHR ''-'' # B)"
  shows "py_in M (py_strip text)"
proof -
  have "\<exists>B'. py_strip ((CHR ''#'' # A) @ M @ (CHR ''-'' # B)) = (CHR ''#'' # A) @ M @ B'"
    by (rule py_strip_keeps_middle) (auto simp: is_space_def)
  then show ?thesis
    unfolding assms using py_in_middle by metis
qed

text \<open>
  Claim C10. In every processed record the keys \<open>element\<close>, \<open>weapon\<close> and \<open>region\<close> are
  present, so the default \<open>Unknown\<close> of the chunk template is never used for them; and
  when one of them holds \<open>None\<close>, the content of the record's \<open>basic_info\<close> chunk has the
  line \<open>- Element: None\<close> (or \<open>- Weapon: None\<close>, \<open>- Region: None\<close>).
\<close>

theorem none_rendered_in_basic_info:
  assumes "char \<in> set (process_all raws)"
  shows "info_element char \<noteq> Absent \<and> info_weapon char \<noteq> Absent \<and> info_region char \<noteq> Absent
       \<and> get_default (info_element char) ''Unknown'' = info_element char
       \<and> get_default (info_weapon char) ''Unknown'' = info_weapon char
       \<and> get_default (info_region char) ''Unknown'' = info_region char
       \<and> (\<exists>chunks. create_smart_chunks [char] chunk_size = Inr chunks \<and> chunks \<noteq> []
            \<and> chunk_type (hd chunks) = ''basic_info''
            \<and> (info_element char = Null \<longrightarrow>
                 py_in (newline @ ''- Element: None'' @ newline) (content (hd chunks)))
            \<and> (info_weapon char = Null \<longrightarrow>
                 py_in (newline @ ''- Weapon: None'' @ newline) (content (hd chunks)))
            \<and> (info_region char = Null \<longrightarrow>
                 py_in (newline @ ''- Region: None'' @ newline) (content (hd chunks))))"
proof -
  from assms obtain raw where raw: "process_character raw = Inr char"
    using process_all_member by blast
  note f = process_character_fields [OF raw]
  from f obtain n s d where e: "info_name char = Val n" "info_sections char = Val s"
      "info_description char = Val d"
    by blast
  have present: "info_element char \<noteq> Absent" "info_weapon char \<noteq> Absent"
      "info_region char \<noteq> Absent" "info_rarity char \<noteq> Absent" "info_role_summary char \<noteq> Absent"
    using f by (simp_all add: stored_not_absent)
  note gd = present [THEN get_default_present]
  from character_chunks_kinds [OF e] obtain cs where cs: "character_chunks char = Inr cs"
      "cs \<noteq> []" "chunk_type (hd cs) = ''basic_info''" "content (hd cs) = py_strip (basic_info_text char)"
    by blast
  define opt where "opt =
       (case info_affiliations char of
          Val affiliations \<Rightarrow>
            if affiliations \<noteq> [] then ''- Affiliations: '' @ py_join '', '' affiliations @ newline else []
        | _ \<Rightarrow> [])
       @ (if truthy (info_birthday char) then ''- Birthday: '' @ fmt (info_birthday char) @ newline else [])
       @ (if truthy (info_release_date char)
          then ''- Release Date: '' @ fmt (info_release_date char) @ newline else [])"
  have bt: "basic_info_text char =
      ''# '' @ n @ newline @ newline @ ''## Basic Information'' @ newline @
      ''- Element: '' @ fmt (info_element char) @ newline @
      ''- Weapon: '' @ fmt (info_weapon char) @ newline @
      ''- Rarity: '' @ fmt_int (info_rarity char) @ ''-Star'' @ newline @
      ''- Region: '' @ fmt (info_region char) @ newline @
      ''- Role: '' @ fmt (info_role_summary char) @ newline @ opt"
    unfolding basic_info_text_def Let_def gd opt_def
    by (simp add: e get_default_def fmt_def split del: if_split)
  have el: "py_in (newline @ ''- Element: None'' @ newline) (py_strip (basic_info_text char))"
    if "info_element char = Null"
    by (rule line_in_stripped
          [where A = "'' '' @ n @ newline @ newline @ ''## Basic Information''"
             and B = "'' Weapon: '' @ fmt (info_weapon char) @ newline @
                      ''- Rarity: '' @ fmt_int (info_rarity char) @ ''-Star'' @ newline @
                      ''- Region: '' @ fmt (info_region char) @ newline @
                      ''- Role: '' @ fmt (info_role_summary char) @ newline @ opt"])
       (simp add: bt that fmt_def)
  have we: "py_in (newline @ ''- Weapon: None'' @ newline) (py_strip (basic_info_text char))"
    if "info_weapon char = Null"
    by (rule line_in_stripped
          [where A = "'' '' @ n @ newline @ newline @ ''## Basic Information'' @ newline @
                      ''- Element: '' @ fmt (info_element char)"
             and B = "'' Rarity: '' @ fmt_int (info_rarity char) @ ''-Star'' @ newline @
                      ''- Region: '' @ fmt (info_region char) @ newline @
                      ''- Role: '' @ fmt (info_role_summary char) @ newline @ opt"])
       (simp add: bt that fmt_def)
  have re: "py_in (newline @ ''- Region: None'' @ newline) (py_strip (basic_info_text char))"
    if "info_region char = Null"
    by (rule line_in_stripped
          [where A = "'' '' @ n @ newline @ newline @ ''## Basic Information'' @ newline @
                      ''- Element: '' @ fmt (info_element char) @ newline @
                      ''- Weapon: '' @ fmt (info_weapon char) @ newline @
                      ''- Rarity: '' @ fmt_int (info_rarity char) @ ''-Star''"
             and B = "'' Role: '' @ fmt (info_role_summary char) @ newline @ opt"])
       (simp add: bt that fmt_def)
  show ?thesis
    using present gd cs el we re by (simp add: create_smart_chunks_single)
qed

theorem none_rendered_in_basic_info_witness:
  "hd (process_all [\<lparr> raw_name = None, raw_url = None, raw_introduction = None,
                      raw_full_text = None, raw_sections = None, raw_infobox = None \<rparr>])
     \<in> set (process_all [\<lparr> raw_name = None, raw_url = None, raw_introduction = None,
                      raw_full_text = None, raw_sections = None, raw_infobox = None \<rparr>])
   \<and> info_element (hd (process_all [\<lparr> raw_name = None, raw_url = None, raw_introduction = None,
                      raw_full_text = None, raw_sections = None, raw_infobox = None \<rparr>])) = Null
   \<and> (\<exists>chunks. create_smart_chunks
          [hd (process_all [\<lparr> raw_name = None, raw_url = None, raw_introduction = None,
                      raw_full_text = None, raw_sections = None, raw_infobox = None \<rparr>])] 800 = Inr chunks
        \<and> py_in (newline @ ''- Element: None'' @ newline) (content (hd chunks)))"
proof -
  let ?r = "\<lparr> raw_name = None, raw_url = None, raw_introduction = None,
              raw_full_text = None, raw_sections = None, raw_infobox = None \<rparr>"
  obtain info where info: "process_character ?r = Inr info"
    using process_character_ok [of ?r None] by (auto simp: regex_fields_empty)
  then have pa: "process_all [?r] = [info]"
    by (simp add: process_all_def)
  have el: "info_element info = Null"
    using process_character_fields [OF info] by (simp add: keyword_fields_empty stored_def)
  have mem: "info \<in> set (process_all [?r])"
    by (simp add: pa)
  from none_rendered_in_basic_info [OF mem, of 800] el
  obtain chunks where "create_smart_chunks [info] 800 = Inr chunks"
      "py_in (newline @ ''- Element: None'' @ newline) (content (hd chunks))"
    by blast
  then show ?thesis
    using el by (simp add: pa)
qed

text \<open>
  Claim C1, as amended. For the raw introduction \<open>DilucisaPyrocharacterwhousesClaymore.\<close>
  the normalizer returns \<open>Dilucisa Pyrocharacterwhouses Claymore.\<close>: it separates a
  lower-case letter from a following capital and knows no word boundaries inside a run of
  lower-case letters. The element extractor returns \<open>Pyro\<close> and the weapon extractor
  \<open>Claymore\<close>.
\<close>

theorem clean_text_diluc:
  "clean_text ''DilucisaPyrocharacterwhousesClaymore.'' = ''Dilucisa Pyrocharacterwhouses Claymore.'' \<and>
   extract_field ''DilucisaPyrocharacterwhousesClaymore.'' element_options = Some ''Pyro'' \<and>
   extract_field ''DilucisaPyrocharacterwhousesClaymore.'' weapon_options = Some ''Claymore''"
  by code_simp

text \<open>The sentence of the scenario, \<open>Diluc is a Pyro character who uses Claymore.\<close>, is not
  what the normalizer returns.\<close>

theorem clean_text_diluc_counterexample:
  "clean_text ''DilucisaPyrocharacterwhousesClaymore.'' \<noteq> ''Diluc is a Pyro character who uses Claymore.''"
  by code_simp

text \<open>
  Claim C6, as amended. The text that is tested is \<open>name\<close>, \<open>url\<close> and \<open>intro\<close> joined by
  single spaces, \<open>f"{name} {url} {intro}"\<close>, in lower case. When it contains \<open>wonderland\<close>,
  \<open>gameplay mode\<close> or \<open>system character\<close>, \<open>extract_clean_description\<close> returns the fixed
  sentence about the system character, whatever the sections are and without any of the
  other tiers contributing.
\<close>

theorem system_character_short_circuit:
  assumes "py_in ''wonderland'' (py_lower (name @ '' '' @ url @ '' '' @ intro))
         \<or> py_in ''gameplay mode'' (py_lower (name @ '' '' @ url @ '' '' @ intro))
         \<or> py_in ''system character'' (py_lower (name @ '' '' @ url @ '' '' @ intro))"
  shows "extract_clean_description name intro full_text sections url = system_character_description"
  using assms by (simp add: extract_clean_description_def is_system_character_def Let_def)

theorem system_character_short_circuit_witness:
  "py_in ''gameplay mode'' (py_lower (''M'' @ '' '' @ ''u'' @ '' '' @ ''A Gameplay Mode''))
   \<and> extract_clean_description ''M'' ''A Gameplay Mode'' [] [(''Official Introduction'', ''text'')] ''u''
       = system_character_description"
proof -
  have h: "py_in ''gameplay mode'' (py_lower (''M'' @ '' '' @ ''u'' @ '' '' @ ''A Gameplay Mode''))"
    by code_simp
  show ?thesis
    using h system_character_short_circuit
      [of "''M''" "''u''" "''A Gameplay Mode''" "[]" "[(''Official Introduction'', ''text'')]"]
    by blast
qed

text \<open>With the name \<open>Wonder\<close>, the url \<open>land\<close> and an empty introduction, the lower-cased
  concatenation of name, url and introduction contains \<open>wonderland\<close>, and the description
  is not the fixed sentence: the text that is tested is \<open>wonder land \<close>.\<close>

theorem system_character_concatenation_counterexample:
  "py_in ''wonderland'' (py_lower (''Wonder'' @ ''land'' @ ''''))
   \<and> extract_clean_description ''Wonder'' '''' '''' [] ''land'' \<noteq> system_character_description"
  by code_simp

text \<open>
  Claim C7. \<open>extract_how_to_obtain\<close> never returns the empty list, and when the lower-cased
  introduction contains none of the keywords it tests, the result is the list with the
  single element \<open>Wishes\<close>.
\<close>

theorem extract_how_to_obtain_nonempty:
  "extract_how_to_obtain intro \<noteq> [] \<and>
   (\<not> py_in ''wishes'' (py_lower intro) \<and> \<not> py_in ''wish'' (py_lower intro)
    \<and> \<not> py_in ''event wish'' (py_lower intro) \<and> \<not> py_in ''chronicled wishes'' (py_lower intro)
    \<and> \<not> py_in ''paimon's bargains'' (py_lower intro) \<and> \<not> py_in ''adventure rank'' (py_lower intro)
    \<and> \<not> py_in ''archon quest'' (py_lower intro) \<and> \<not> py_in ''complete'' (py_lower intro)
    \<longrightarrow> extract_how_to_obtain intro = [''Wishes''])"
  by (simp add: extract_how_to_obtain_def Let_def)

theorem extract_how_to_obtain_nonempty_witness:
  "\<not> py_in ''wishes'' (py_lower ''A Pyro user'') \<and> \<not> py_in ''wish'' (py_lower ''A Pyro user'')
    \<and> \<not> py_in ''event wish'' (py_lower ''A Pyro user'')
    \<and> \<not> py_in ''chronicled wishes'' (py_lower ''A Pyro user'')
    \<and> \<not> py_in ''paimon's bargains'' (py_lower ''A Pyro user'')
    \<and> \<not> py_in ''adventure rank'' (py_lower ''A Pyro user'')
    \<and> \<not> py_in ''archon quest'' (py_lower ''A Pyro user'')
    \<and> \<not> py_in ''complete'' (py_lower ''A Pyro user'')
    \<and> extract_how_to_obtain ''A Pyro user'' = [''Wishes'']"
proof -
  have h: "\<not> py_in ''wishes'' (py_lower ''A Pyro user'') \<and> \<not> py_in ''wish'' (py_lower ''A Pyro user'')
    \<and> \<not> py_in ''event wish'' (py_lower ''A Pyro user'')
    \<and> \<not> py_in ''chronicled wishes'' (py_lower ''A Pyro user'')
    \<and> \<not> py_in ''paimon's bargains'' (py_lower ''A Pyro user'')
    \<and> \<not> py_in ''adventure rank'' (py_lower ''A Pyro user'')
    \<and> \<not> py_in ''archon quest'' (py_lower ''A Pyro user'')
    \<and> \<not> py_in ''complete'' (py_lower ''A Pyro user'')"
    by code_simp
  show ?thesis
    using h extract_how_to_obtain_nonempty [of "''A Pyro user''"] by blast
qed

theorem process_character_deterministic_witness:
  "raw_full_text \<lparr> raw_name = Some ''Amber'', raw_url = None, raw_introduction = Some ''Pyro'',
              raw_full_text = Some ''page text'', raw_sections = None, raw_infobox = None \<rparr>
     \<noteq> raw_full_text \<lparr> raw_name = Some ''Amber'', raw_url = None, raw_introduction = Some ''Pyro'',
              raw_full_text = None, raw_sections = None, raw_infobox = Some [] \<rparr>
   \<and> extract_event_wishes ''Pyro'' = Inr None
   \<and> (\<exists>info full_text.
        process_character \<lparr> raw_name = Some ''Amber'', raw_url = None, raw_introduction = Some ''Pyro'',
              raw_full_text = Some ''page text'', raw_sections = None, raw_infobox = None \<rparr> = Inr info
      \<and> process_character \<lparr> raw_name = Some ''Amber'', raw_url = None, raw_introduction = Some ''Pyro'',
              raw_full_text = None, raw_sections = None, raw_infobox = Some [] \<rparr> = Inr info
      \<and> info_full_text info = Val full_text \<and> create_rag_text info = Inr full_text)"
proof -
  let ?r1 = "\<lparr> raw_name = Some ''Amber'', raw_url = None, raw_introduction = Some ''Pyro'',
              raw_full_text = Some ''page text'', raw_sections = None, raw_infobox = None \<rparr>"
  let ?r2 = "\<lparr> raw_name = Some ''Amber'', raw_url = None, raw_introduction = Some ''Pyro'',
              raw_full_text = None, raw_sections = None, raw_infobox = Some [] \<rparr>"
  have h: "raw_name ?r1 = raw_name ?r2" "raw_url ?r1 = raw_url ?r2"
      "raw_introduction ?r1 = raw_introduction ?r2" "raw_sections ?r1 = raw_sections ?r2"
    by simp_all
  have e: "extract_event_wishes ''Pyro'' = Inr None"
    by code_simp
  then have e': "extract_event_wishes (case raw_introduction ?r1 of Some i \<Rightarrow> i | None \<Rightarrow> '''') = Inr None"
    by simp
  note t = process_character_deterministic [OF h, THEN conjunct2, THEN conjunct1, rule_format, OF e']
  then obtain info full_text where "process_character ?r1 = Inr info" "process_character ?r2 = Inr info"
      "info_full_text info = Val full_text" "create_rag_text info = Inr full_text"
    by blast
  moreover have "raw_full_text ?r1 \<noteq> raw_full_text ?r2"
    by simp
  ultimately show ?thesis
    using e by blast
qed

subsection \<open>The normalizer\<close>

















end
